theory Spec2Isabelle
  imports Complex_Main "HOL-Library.AList"
begin

section \<open>JavaScript strings\<close>

text \<open>
  A JavaScript string is a sequence of UTF-16 code units, and \<open>length\<close>, \<open>charAt\<close>,
  \<open>substring\<close>, \<open>split\<close> and the regular expressions of the handler (none has the
  \<open>u\<close> flag) all work on code units. A code unit is modelled by its number; an
  ASCII literal of the source is written \<open>js ''...''\<close>, and a character outside ASCII
  is written as its code units.
\<close>

type_synonym code_unit = nat
type_synonym jsstring = "code_unit list"

definition js :: "string \<Rightarrow> jsstring" where
  "js s = map of_char s"

text \<open>\<open>s.charAt(i)\<close>: the one-unit string at index \<open>i\<close>, the empty string out of range.\<close>

definition charAt :: "jsstring \<Rightarrow> int \<Rightarrow> jsstring" where
  "charAt s i = (if 0 \<le> i \<and> i < int (length s) then [s ! nat i] else [])"

text \<open>The character classes \<open>[A-Z]\<close>, \<open>[a-z]\<close> and \<open>[0-9]\<close>.\<close>

definition isUpper :: "code_unit \<Rightarrow> bool" where
  "isUpper c = (65 \<le> c \<and> c \<le> 90)"

definition isLower :: "code_unit \<Rightarrow> bool" where
  "isLower c = (97 \<le> c \<and> c \<le> 122)"

definition isDigit :: "code_unit \<Rightarrow> bool" where
  "isDigit c = (48 \<le> c \<and> c \<le> 57)"

text \<open>
  LineTerminator and WhiteSpace of ECMAScript. \<open>.\<close> in a regular expression matches
  every code unit but a line terminator; \<open>\s\<close> matches, and \<open>trim\<close> strips, white
  space and line terminators alike.
\<close>

definition isLineTerminator :: "code_unit \<Rightarrow> bool" where
  "isLineTerminator c = (c = 10 \<or> c = 13 \<or> c = 8232 \<or> c = 8233)"

definition isWhiteSpace :: "code_unit \<Rightarrow> bool" where
  "isWhiteSpace c =
     (c = 9 \<or> c = 11 \<or> c = 12 \<or> c = 32 \<or> c = 160 \<or> c = 5760
      \<or> (8192 \<le> c \<and> c \<le> 8202) \<or> c = 8239 \<or> c = 8287 \<or> c = 12288 \<or> c = 65279
      \<or> isLineTerminator c)"

definition trim :: "jsstring \<Rightarrow> jsstring" where
  "trim s = rev (dropWhile isWhiteSpace (rev (dropWhile isWhiteSpace s)))"

text \<open>
  \<open>toUpperCase\<close> on ASCII: the handler applies it only to what \<open>[A-Z0-9]{8}\<close> has
  matched. The same mapping is the canonicalisation of the \<open>i\<close> flag on ASCII (without
  the \<open>u\<close> flag no character outside ASCII is canonicalised to an ASCII one).
\<close>

definition toUpper :: "code_unit \<Rightarrow> code_unit" where
  "toUpper c = (if isLower c then c - 32 else c)"

definition toUpperCase :: "jsstring \<Rightarrow> jsstring" where
  "toUpperCase s = map toUpper s"

definition startsWith :: "jsstring \<Rightarrow> jsstring \<Rightarrow> bool" where
  "startsWith s p = (take (length p) s = p)"

definition endsWith :: "jsstring \<Rightarrow> jsstring \<Rightarrow> bool" where
  "endsWith s p = (length p \<le> length s \<and> drop (length s - length p) s = p)"

text \<open>\<open>s.substring(0, n)\<close>: a negative \<open>n\<close> counts as 0, one past the end as the length.\<close>

definition substring0 :: "jsstring \<Rightarrow> int \<Rightarrow> jsstring" where
  "substring0 s n = take (nat n) s"

text \<open>
  \<open>s.split(d)\<close> and \<open>parts.join(d)\<close> for a separator \<open>d\<close> of one code unit; the split
  of the empty string is the list of one empty string.
\<close>

fun split :: "jsstring \<Rightarrow> code_unit \<Rightarrow> jsstring list" where
  "split [] d = [[]]"
| "split (c # cs) d =
     (if c = d then [] # split cs d
      else (case split cs d of
              [] \<Rightarrow> [[c]]
            | part # parts \<Rightarrow> (c # part) # parts))"

fun join :: "jsstring list \<Rightarrow> code_unit \<Rightarrow> jsstring" where
  "join [] d = []"
| "join [part] d = part"
| "join (part # parts) d = part @ d # join parts d"

definition colon :: code_unit where
  "colon = 58"

section \<open>The regular expressions of the command parser\<close>

text \<open>
  The three patterns of \<open>_handleMessage\<close> are built from four pieces. Each piece is a
  backtracking matcher in continuation style: it takes the matcher \<open>k\<close> of the rest of
  the pattern and the input that is left, and returns the first match in the order in
  which the ECMAScript matcher tries the alternatives. All three patterns start with
  \<open>^\<close>, so matching starts at the first code unit only.

  \<open>re_literal_i\<close> is a literal under the \<open>i\<close> flag, \<open>re_token\<close> the group
  \<open>([A-Z0-9]{8})\<close> (with or without the \<open>i\<close> flag), \<open>re_spaces\<close> the greedy
  \<open>\s+\<close>, which tries the longest run first and gives code units back one at a time,
  and \<open>re_rest\<close> the group \<open>(.+)\<close> followed by \<open>$\<close>: without the \<open>m\<close> flag
  \<open>$\<close> holds at the end of the input only, so the group must take all that is left.
\<close>

fun re_literal_i :: "jsstring \<Rightarrow> (jsstring \<Rightarrow> 'a option) \<Rightarrow> jsstring \<Rightarrow> 'a option" where
  "re_literal_i [] k s = k s"
| "re_literal_i (p # ps) k [] = None"
| "re_literal_i (p # ps) k (c # cs) =
     (if toUpper c = toUpper p then re_literal_i ps k cs else None)"

definition isTokenChar :: "bool \<Rightarrow> code_unit \<Rightarrow> bool" where
  "isTokenChar ignoreCase c = (isUpper c \<or> isDigit c \<or> (ignoreCase \<and> isLower c))"

definition re_token :: "bool \<Rightarrow> (jsstring \<Rightarrow> jsstring \<Rightarrow> 'a option) \<Rightarrow> jsstring \<Rightarrow> 'a option" where
  "re_token ignoreCase k s =
     (if 8 \<le> length s \<and> list_all (isTokenChar ignoreCase) (take 8 s)
      then k (take 8 s) (drop 8 s) else None)"

fun re_spaces :: "(jsstring \<Rightarrow> 'a option) \<Rightarrow> jsstring \<Rightarrow> 'a option" where
  "re_spaces k [] = None"
| "re_spaces k (c # cs) =
     (if isWhiteSpace c
      then (case re_spaces k cs of Some m \<Rightarrow> Some m | None \<Rightarrow> k cs)
      else None)"

definition re_rest :: "jsstring \<Rightarrow> jsstring option" where
  "re_rest s = (if s \<noteq> [] \<and> list_all (\<lambda>c. \<not> isLineTerminator c) s then Some s else None)"

text \<open>
  The result of a match is the pair of its two groups, \<open>(match[1], match[2])\<close>;
  \<open>None\<close> is the \<open>null\<close> of a failed match.
  \<^item> \<open>newFormatMatch\<close>: \<^verbatim>\<open>/^\/cmd([A-Z0-9]{8})\s+(.+)$/i\<close>
  \<^item> \<open>oldFormatMatch\<close>: \<^verbatim>\<open>/^\/cmd\s+([A-Z0-9]{8})\s+(.+)$/i\<close>
  \<^item> \<open>directMatch\<close>: \<^verbatim>\<open>/^([A-Z0-9]{8})\s+(.+)$/\<close>
\<close>

definition token_then_command :: "bool \<Rightarrow> jsstring \<Rightarrow> (jsstring \<times> jsstring) option" where
  "token_then_command ignoreCase =
     re_token ignoreCase (\<lambda>tok. re_spaces (\<lambda>s. map_option (Pair tok) (re_rest s)))"

definition newFormatMatch :: "jsstring \<Rightarrow> (jsstring \<times> jsstring) option" where
  "newFormatMatch messageText =
     re_literal_i (js ''/cmd'') (token_then_command True) messageText"

definition oldFormatMatch :: "jsstring \<Rightarrow> (jsstring \<times> jsstring) option" where
  "oldFormatMatch messageText =
     re_literal_i (js ''/cmd'') (re_spaces (token_then_command True)) messageText"

definition directMatch :: "jsstring \<Rightarrow> (jsstring \<times> jsstring) option" where
  "directMatch messageText = token_then_command False messageText"

text \<open>
  The cascade of \<open>_handleMessage\<close> (webhook handler, lines 112-138): the first
  pattern that matches gives the token, uppercased, and the command; \<open>None\<close> is the
  branch that answers with the usage hint.
\<close>

definition parseCommand :: "jsstring \<Rightarrow> (jsstring \<times> jsstring) option" where
  "parseCommand messageText =
     (case newFormatMatch messageText of
        Some (tok, command) \<Rightarrow> Some (toUpperCase tok, command)
      | None \<Rightarrow>
          (case oldFormatMatch messageText of
             Some (tok, command) \<Rightarrow> Some (toUpperCase tok, command)
           | None \<Rightarrow>
               (case directMatch messageText of
                  Some (tok, command) \<Rightarrow> Some (toUpperCase tok, command)
                | None \<Rightarrow> None)))"

section \<open>Double-precision numbers\<close>

text \<open>
  \<open>Math.random()\<close> returns an IEEE 754 double, and \<open>*\<close> on doubles rounds the exact
  product to the nearest double, ties to the even significand. A finite double that is
  not negative is modelled by a significand and an exponent: \<open>\<lparr>mant = m, expo = e\<rparr>\<close>
  is the number \<open>m * 2 ^ e\<close>, with \<open>m < 2 ^ 53\<close> and \<open>- 1074 \<le> e\<close> (the significand need
  not be normalised, so subnormal numbers are included).
\<close>

record double =
  mant :: nat
  expo :: int

text \<open>The doubles in \<open>[0, 1)\<close>: what \<open>Math.random()\<close> can return.\<close>

definition belowOne :: "double \<Rightarrow> bool" where
  "belowOne d =
     (mant d < 2 ^ 53 \<and> - 1074 \<le> expo d
      \<and> (mant d = 0 \<or> (expo d < 0 \<and> mant d < 2 ^ nat (- expo d))))"

text \<open>The number of binary digits of a natural number.\<close>

fun bitLength :: "nat \<Rightarrow> nat" where
  "bitLength n = (if n = 0 then 0 else Suc (bitLength (n div 2)))"

declare bitLength.simps [simp del]

text \<open>\<open>M / 2 ^ s\<close> rounded to the nearest natural number, a tie to the even one.\<close>

definition roundHalfEven :: "nat \<Rightarrow> nat \<Rightarrow> nat" where
  "roundHalfEven M s =
     (let q = M div 2 ^ s; r = M mod 2 ^ s
      in if 2 * r > 2 ^ s \<or> (2 * r = 2 ^ s \<and> odd q) then q + 1 else q)"

text \<open>
  The product \<open>d * n\<close> of a double and a natural number below \<open>2 ^ 53\<close> (which is a
  double itself), for a product that does not overflow. The exact product is
  \<open>M * 2 ^ e\<close> with \<open>M = m * n\<close>; when \<open>M\<close> has more than 53 binary digits, the \<open>s\<close>
  digits beyond 53 are rounded away and the exponent grows by \<open>s\<close>. (The exponent does
  not go below \<open>- 1074\<close>, so the result is a double, and the doubles next to the exact
  product are \<open>2 ^ (e + s)\<close> apart, so it is the nearest one.)
\<close>

definition multiply :: "double \<Rightarrow> nat \<Rightarrow> double" where
  "multiply d n =
     (let M = mant d * n; s = bitLength M - 53
      in \<lparr> mant = roundHalfEven M s, expo = expo d + int s \<rparr>)"

text \<open>\<open>Math.floor\<close>, as the integer it returns.\<close>

definition mathFloor :: "double \<Rightarrow> int" where
  "mathFloor d =
     (if 0 \<le> expo d then int (mant d) * 2 ^ nat (expo d)
      else int (mant d) div 2 ^ nat (- expo d))"

section \<open>telegram.js: the token generator\<close>

text \<open>
  \<open>_generateToken\<close> (telegram.js, lines 56-64). \<open>draw i\<close> is the double the
  \<open>i\<close>-th call of \<open>Math.random()\<close> returns; the index is
  \<open>Math.floor(Math.random() * chars.length)\<close>, computed on doubles.
\<close>

definition chars :: jsstring where
  "chars = js ''ABCDEFGHIJKLMNOPQRSTUVWXYZ0123456789''"

function generateToken_loop :: "(nat \<Rightarrow> double) \<Rightarrow> nat \<Rightarrow> jsstring \<Rightarrow> jsstring" where
  "generateToken_loop draw i token =
     (if i < 8
      then generateToken_loop draw (i + 1)
             (token @ charAt chars (mathFloor (multiply (draw i) (length chars))))
      else token)"
  by pat_completeness auto
termination
  by (relation "measure (\<lambda>(draw, i, token). 8 - i)") auto

definition generateToken :: "(nat \<Rightarrow> double) \<Rightarrow> jsstring" where
  "generateToken draw = generateToken_loop draw 0 []"

section \<open>The sessions directory\<close>

text \<open>
  A session record as \<open>_createSession\<close> writes it and as \<open>_processCommand\<close> reads it.
  \<open>createdAt\<close> and \<open>expiresAt\<close> are epoch seconds. The fields \<open>type\<close> (always
  \<open>'telegram'\<close>), \<open>created\<close> and \<open>expires\<close> (the same two instants as ISO text) and
  \<open>notification\<close> (a copy of the event) are written and never read; they are left out.
  \<open>createdAt\<close> is absent from, and \<open>chatId\<close> present only in, the records that
  \<open>_findSessionByToken\<close> converts from the persistent session manager's format.
\<close>

record session =
  sess_id :: jsstring
  token :: jsstring
  createdAt :: "int option"
  expiresAt :: int
  tmuxSession :: jsstring
  project :: jsstring
  sess_chatId :: "jsstring option"

text \<open>
  The directory \<open>sessionsDir\<close>: file names with their contents, in the order
  \<open>readdirSync\<close> lists them. A file holds either the JSON of a session or anything else
  (text that \<open>JSON.parse\<close> rejects, or a value with no matching \<open>token\<close>): the scan of
  \<open>_findSessionByToken\<close> skips such a file either way.
\<close>

datatype file_content = SessionJson session | OtherContent

type_synonym directory = "(jsstring \<times> file_content) list"

definition existsSync :: "directory \<Rightarrow> jsstring \<Rightarrow> bool" where
  "existsSync dir file = (map_of dir file \<noteq> None)"

definition unlinkSync :: "directory \<Rightarrow> jsstring \<Rightarrow> directory" where
  "unlinkSync dir file = AList.delete file dir"

definition writeFileSync :: "directory \<Rightarrow> jsstring \<Rightarrow> file_content \<Rightarrow> directory" where
  "writeFileSync dir file content = AList.update file content dir"

definition readdirSync :: "directory \<Rightarrow> jsstring list" where
  "readdirSync dir = map fst dir"

text \<open>The path of a session's file inside \<open>sessionsDir\<close>: \<^verbatim>\<open>`${sessionId}.json`\<close>.\<close>

definition sessionFile :: "jsstring \<Rightarrow> jsstring" where
  "sessionFile sessionId = sessionId @ js ''.json''"

text \<open>\<open>_removeSession\<close> (telegram.js, lines 262-268; the webhook handler, lines 334-340).\<close>

definition removeSession :: "directory \<Rightarrow> jsstring \<Rightarrow> directory" where
  "removeSession dir sessionId =
     (if existsSync dir (sessionFile sessionId)
      then unlinkSync dir (sessionFile sessionId)
      else dir)"

section \<open>telegram.js: the outbound notification\<close>

text \<open>
  The configuration. An unset entry and an empty one are both falsy and the code tests
  nothing else, so unset is modelled as empty. Identifiers of chats and users are
  modelled by the text \<open>String(id)\<close>, which is all the code compares.
\<close>

record config =
  cfg_botToken :: jsstring
  cfg_chatId :: jsstring
  cfg_groupId :: jsstring
  cfg_whitelist :: "jsstring list"

record metadata =
  userQuestion :: jsstring
  claudeResponse :: jsstring
  md_tmuxSession :: jsstring

record notification =
  n_type :: jsstring
  n_project :: jsstring
  n_message :: jsstring
  n_metadata :: "metadata option"

definition validateConfig :: "config \<Rightarrow> bool" where
  "validateConfig cfg =
     (if cfg_botToken cfg = [] then False
      else if cfg_chatId cfg = [] \<and> cfg_groupId cfg = [] then False
      else True)"

text \<open>
  \<open>_generateTelegramMessage\<close> (telegram.js, lines 175-240). The check mark and the
  hourglass are one code unit each; the speech balloon, the memo and the robot are
  surrogate pairs. \<open>messageHeader\<close> is the text of lines 193-195 (and 181-183),
  \<open>messageFooter\<close> that of lines 235-237 (and 184-186).
\<close>

definition nl :: jsstring where
  "nl = [10]"

definition emoji :: "notification \<Rightarrow> jsstring" where
  "emoji notification = (if n_type notification = js ''completed'' then [9989] else [9203])"

definition status :: "notification \<Rightarrow> jsstring" where
  "status notification =
     (if n_type notification = js ''completed'' then js ''Completed'' else js ''Waiting for Input'')"

definition messageHeader :: "notification \<Rightarrow> jsstring \<Rightarrow> jsstring" where
  "messageHeader notification tok =
     emoji notification @ js '' *Claude Task '' @ status notification @ js ''*'' @ nl
     @ js ''*Project:* '' @ n_project notification @ nl
     @ js ''*Session Token:* `'' @ tok @ js ''`'' @ nl @ nl"

definition messageFooter :: "jsstring \<Rightarrow> jsstring" where
  "messageFooter tok =
     [55357, 56492] @ js '' *To send a new command:*'' @ nl
     @ js ''Reply with: `/cmd '' @ tok @ js '' <your command>`'' @ nl
     @ js ''Example: `/cmd '' @ tok @ js '' Please analyze this code`''"

definition fixedContent :: "notification \<Rightarrow> jsstring \<Rightarrow> jsstring" where
  "fixedContent notification tok = messageHeader notification tok @ messageFooter tok"

definition maxTotalLength :: int where
  "maxTotalLength = 4000"

definition userQuestionHeader :: jsstring where
  "userQuestionHeader = [55357, 56541] @ js '' *Your Question:*'' @ nl"

definition claudeResponseHeader :: jsstring where
  "claudeResponseHeader = [55358, 56598] @ js '' *Claude Response:*'' @ nl"

definition sectionSeparator :: jsstring where
  "sectionSeparator = nl @ nl"

text \<open>
  The question block (lines 205-218) takes the message text and the remaining space and
  returns both updated. \<open>Math.floor(remainingSpace * 0.3)\<close> is taken over the reals; for
  every integer from -5000 to 5000 the IEEE double computation gives the same integer.
\<close>

definition addUserQuestion :: "metadata \<Rightarrow> jsstring \<times> int \<Rightarrow> jsstring \<times> int" where
  "addUserQuestion md = (\<lambda>(messageText, remainingSpace).
     if userQuestion md \<noteq> [] \<and> remainingSpace > 50
     then
       (let headerLength = int (length userQuestionHeader) + int (length sectionSeparator);
            maxQuestionLength = min 500 (\<lfloor>real_of_int remainingSpace * 0.3\<rfloor> - headerLength)
        in if maxQuestionLength > 20
           then
             (let questionText =
                    (if int (length (userQuestion md)) > maxQuestionLength
                     then substring0 (userQuestion md) (maxQuestionLength - 3) @ js ''...''
                     else userQuestion md)
              in (messageText @ userQuestionHeader @ questionText @ sectionSeparator,
                  remainingSpace - (headerLength + int (length questionText))))
           else (messageText, remainingSpace))
     else (messageText, remainingSpace))"

text \<open>The response block (lines 220-232).\<close>

definition addClaudeResponse :: "metadata \<Rightarrow> jsstring \<times> int \<Rightarrow> jsstring" where
  "addClaudeResponse md = (\<lambda>(messageText, remainingSpace).
     if claudeResponse md \<noteq> [] \<and> remainingSpace > 50
     then
       (let headerLength = int (length claudeResponseHeader) + int (length sectionSeparator);
            maxResponseLength = remainingSpace - headerLength - 10
        in if maxResponseLength > 20
           then
             (let responseText =
                    (if int (length (claudeResponse md)) > maxResponseLength
                     then substring0 (claudeResponse md) (maxResponseLength - 3) @ js ''...''
                     else claudeResponse md)
              in messageText @ claudeResponseHeader @ responseText @ sectionSeparator)
           else messageText)
     else messageText)"

definition generateTelegramMessage :: "notification \<Rightarrow> jsstring \<Rightarrow> jsstring \<Rightarrow> jsstring" where
  "generateTelegramMessage notification sessionId tok =
     (let fixedContentLength = int (length (fixedContent notification tok));
          availableSpace = maxTotalLength - fixedContentLength;
          messageText = messageHeader notification tok;
          messageText =
            (case n_metadata notification of
               None \<Rightarrow> messageText
             | Some md \<Rightarrow>
                 if availableSpace > 100
                 then addClaudeResponse md (addUserQuestion md (messageText, availableSpace))
                 else messageText)
      in messageText @ messageFooter tok)"

text \<open>
  What \<open>_sendImpl\<close> takes from outside: the configuration, the identifier \<open>uuidv4()\<close>
  returns, the draws of \<open>Math.random()\<close>, the name \<open>_getCurrentTmuxSession\<close> finds
  (empty for \<open>null\<close>), the pair \<open>(userQuestion, claudeResponse)\<close> that
  \<open>tmuxMonitor.getRecentConversation\<close> reports (a collaborator that is not among the
  sources), the two readings of \<open>Date.now()\<close> behind \<open>createdAt\<close> and \<open>expiresAt\<close> in
  milliseconds, and whether the HTTP post to the chat platform succeeds.
\<close>

record channel_env =
  ch_config :: config
  uuidv4 :: jsstring
  random :: "nat \<Rightarrow> double"
  currentTmuxSession :: jsstring
  recentConversation :: "jsstring \<Rightarrow> jsstring \<times> jsstring"
  dateNow_createdAt :: int
  dateNow_expiresAt :: int
  postSucceeds :: bool

text \<open>
  \<open>_createSession\<close> (telegram.js, lines 242-260): \<open>newSession\<close> is the record of
  lines 243-254, which is then written to the session's file.
\<close>

definition newSession :: "channel_env \<Rightarrow> jsstring \<Rightarrow> notification \<Rightarrow> jsstring \<Rightarrow> session" where
  "newSession env sessionId notification tok =
     \<lparr> sess_id = sessionId,
       token = tok,
       createdAt = Some (dateNow_createdAt env div 1000),
       expiresAt = (dateNow_expiresAt env + 24 * 60 * 60 * 1000) div 1000,
       tmuxSession =
         (case n_metadata notification of
            None \<Rightarrow> js ''default''
          | Some md \<Rightarrow> if md_tmuxSession md \<noteq> [] then md_tmuxSession md else js ''default''),
       project = n_project notification,
       sess_chatId = None \<rparr>"

definition createSession :: "channel_env \<Rightarrow> jsstring \<Rightarrow> notification \<Rightarrow> jsstring \<Rightarrow> directory \<Rightarrow> directory" where
  "createSession env sessionId notification tok dir =
     (let session = newSession env sessionId notification tok
      in writeFileSync dir (sessionFile sessionId) (SessionJson session))"

text \<open>
  \<open>_sendImpl\<close> (telegram.js, lines 104-173). The result is the error thrown for a
  channel that is not configured, or the value returned with the request that was posted
  and the directory as the call leaves it.
\<close>

datatype error = NotConfigured

record request =
  req_chat_id :: jsstring
  req_text :: jsstring
  req_callback_data :: "jsstring list"

definition sendImpl :: "channel_env \<Rightarrow> notification \<Rightarrow> directory \<Rightarrow> error + (bool \<times> request \<times> directory)" where
  "sendImpl env notification dir =
     (if \<not> validateConfig (ch_config env) then Inl NotConfigured
      else
        (let sessionId = uuidv4 env;
             tok = generateToken (random env);
             tmux = currentTmuxSession env;
             notification =
               (if tmux \<noteq> [] \<and> n_metadata notification = None
                then
                  (let conversation = recentConversation env tmux
                   in notification
                        \<lparr> n_metadata := Some
                            \<lparr> userQuestion =
                                (if fst conversation \<noteq> [] then fst conversation
                                 else n_message notification),
                              claudeResponse =
                                (if snd conversation \<noteq> [] then snd conversation
                                 else n_message notification),
                              md_tmuxSession = tmux \<rparr> \<rparr>)
                else notification);
             dir = createSession env sessionId notification tok dir;
             messageText = generateTelegramMessage notification sessionId tok;
             chat =
               (if cfg_groupId (ch_config env) \<noteq> [] then cfg_groupId (ch_config env)
                else cfg_chatId (ch_config env));
             requestData =
               \<lparr> req_chat_id = chat,
                 req_text = messageText,
                 req_callback_data = [js ''personal:'' @ tok, js ''group:'' @ tok] \<rparr>
         in if postSucceeds env
            then Inr (True, requestData, dir)
            else Inr (False, requestData, removeSession dir sessionId)))"

section \<open>The webhook handler\<close>

text \<open>
  What the handler sends out. A reply is one of the fixed message templates of the
  handler, with the values the template interpolates.
\<close>

datatype reply =
    NotAuthorized
  | Welcome
  | Help
  | InvalidFormat
  | InvalidOrExpiredToken
  | TokenExpired
  | CommandSent jsstring jsstring
  | CommandFailed jsstring
  | PersonalFormat jsstring
  | GroupFormat jsstring jsstring
  | CopyFormat jsstring
  | CommandFormat jsstring
  | SessionHelp jsstring

datatype effect =
    SendMessage jsstring reply
  | AnswerCallbackQuery jsstring
  | InjectCommand jsstring jsstring

text \<open>
  The text behind \<open>Help\<close> (\<open>_sendHelpMessage\<close>, lines 241-255); the books are a
  surrogate pair, the bullet is one code unit.
\<close>

definition helpMessage :: jsstring where
  "helpMessage =
     [55357, 56538] @ js '' Claude Code Remote Bot Help'' @ nl @ nl
     @ js ''Commands:'' @ nl
     @ [8226] @ js '' /start - Welcome message'' @ nl
     @ [8226] @ js '' /help - Show this help'' @ nl
     @ [8226] @ js '' /cmdTOKEN command - Send command to Claude'' @ nl @ nl
     @ js ''Example:'' @ nl
     @ js ''/cmdABC12345 analyze the performance of this function'' @ nl @ nl
     @ js ''Tips:'' @ nl
     @ [8226] @ js '' Tokens are case-insensitive'' @ nl
     @ [8226] @ js '' Tokens persist for 7 days'' @ nl
     @ [8226] @ js '' You can also just type TOKEN command without /cmd''"

text \<open>
  The updates the handler receives. A message has its chat and its sender; its text may
  be absent; \<open>reply_to_message\<close> is absent, or present with the \<open>is_bot\<close> flag of its
  sender when it has one. A callback query has its identifier, the chat of the message
  its button was on, and its payload. (An update that lacks one of these fields makes the
  handler throw a \<open>TypeError\<close>, which \<open>_handleWebhook\<close> answers with the status
  500. Such updates are outside the model, and so is a missing sessions directory.)
\<close>

record message =
  msg_chat_id :: jsstring
  msg_from_id :: jsstring
  msg_text :: "jsstring option"
  reply_to_message :: "bool option option"

record callback_query =
  cq_id :: jsstring
  cq_chat_id :: jsstring
  cq_data :: jsstring

record update =
  upd_message :: "message option"
  upd_callback_query :: "callback_query option"

text \<open>
  A record of the persistent session manager. The manager is not among the sources: its
  two lookups are parameters of the handler, which calls nothing else of it.
\<close>

record psession =
  p_sessionId :: jsstring
  p_token :: jsstring
  p_tmuxSession :: jsstring
  p_project :: jsstring
  p_expiresAt :: int
  p_chatId :: jsstring

text \<open>
  What the handler takes from outside: the configuration, the two lookups of the
  persistent session manager, the outcome of \<open>injector.injectCommand\<close> (\<open>None\<close> when it
  resolves, the error's message when it throws), the reading of \<open>Date.now()\<close> in
  milliseconds, and the name \<open>_getBotUsername\<close> returns.
\<close>

record webhook_env =
  wh_config :: config
  getSessionByToken :: "jsstring \<Rightarrow> psession option"
  getCurrentChatSession :: "jsstring \<Rightarrow> psession option"
  injectCommand :: "jsstring \<Rightarrow> jsstring \<Rightarrow> jsstring option"
  dateNow :: int
  botUsername :: jsstring

text \<open>
  The state a handler changes: the sessions directory, and the calls made to the chat
  platform and to the injector, oldest first.
\<close>

record state =
  files :: directory
  trace :: "effect list"

definition emit :: "effect \<Rightarrow> state \<Rightarrow> state" where
  "emit e st = st \<lparr> trace := trace st @ [e] \<rparr>"

definition sendMessage :: "jsstring \<Rightarrow> reply \<Rightarrow> state \<Rightarrow> state" where
  "sendMessage chat r st = emit (SendMessage chat r) st"

text \<open>\<open>_isAuthorized\<close> (lines 257-274).\<close>

definition isAuthorized :: "webhook_env \<Rightarrow> jsstring \<Rightarrow> jsstring \<Rightarrow> bool" where
  "isAuthorized env userId chat =
     (let wl = cfg_whitelist (wh_config env)
      in if chat \<in> set wl \<or> userId \<in> set wl then True
         else if wl = []
              \<and> (let configuredChatId =
                        (if cfg_chatId (wh_config env) \<noteq> [] then cfg_chatId (wh_config env)
                         else cfg_groupId (wh_config env))
                  in configuredChatId \<noteq> [] \<and> chat = configuredChatId)
         then True
         else False)"

text \<open>
  \<open>_findSessionByToken\<close> (lines 299-332): first the persistent session manager, whose
  record is converted; then the scan of the directory, which compares the stored token
  with the argument as it is.
\<close>

fun scanSessionFiles :: "directory \<Rightarrow> jsstring \<Rightarrow> jsstring list \<Rightarrow> session option" where
  "scanSessionFiles dir tok [] = None"
| "scanSessionFiles dir tok (file # rest) =
     (if \<not> endsWith file (js ''.json'') \<or> file = js ''chat-sessions.json''
      then scanSessionFiles dir tok rest
      else
        (case map_of dir file of
           Some (SessionJson session) \<Rightarrow>
             if token session = tok then Some session else scanSessionFiles dir tok rest
         | _ \<Rightarrow> scanSessionFiles dir tok rest))"

definition findSessionByToken :: "webhook_env \<Rightarrow> directory \<Rightarrow> jsstring \<Rightarrow> session option" where
  "findSessionByToken env dir tok =
     (case getSessionByToken env tok of
        Some session \<Rightarrow>
          Some \<lparr> sess_id = p_sessionId session,
                 token = p_token session,
                 createdAt = None,
                 expiresAt = p_expiresAt session,
                 tmuxSession = p_tmuxSession session,
                 project = p_project session,
                 sess_chatId = Some (p_chatId session) \<rparr>
      | None \<Rightarrow> scanSessionFiles dir tok (readdirSync dir))"

text \<open>\<open>_processCommand\<close> (lines 143-181).\<close>

definition processCommand :: "webhook_env \<Rightarrow> jsstring \<Rightarrow> jsstring \<Rightarrow> jsstring \<Rightarrow> state \<Rightarrow> state" where
  "processCommand env chat tok command st =
     (case findSessionByToken env (files st) tok of
        None \<Rightarrow> sendMessage chat InvalidOrExpiredToken st
      | Some session \<Rightarrow>
          if expiresAt session < dateNow env div 1000
          then
            (let st = sendMessage chat TokenExpired st
             in st \<lparr> files := removeSession (files st) (sess_id session) \<rparr>)
          else
            (let tmux = (if tmuxSession session \<noteq> [] then tmuxSession session else js ''default'');
                 st = emit (InjectCommand command tmux) st
             in case injectCommand env command tmux of
                  None \<Rightarrow> sendMessage chat (CommandSent command tmux) st
                | Some errorMessage \<Rightarrow> sendMessage chat (CommandFailed errorMessage) st))"

text \<open>\<open>_handleMessage\<close> (lines 75-141).\<close>

definition handleMessage :: "webhook_env \<Rightarrow> message \<Rightarrow> state \<Rightarrow> state" where
  "handleMessage env msg st =
     (let chat = msg_chat_id msg;
          userId = msg_from_id msg;
          messageText = (case msg_text msg of None \<Rightarrow> [] | Some t \<Rightarrow> trim t)
      in if messageText = [] then st
         else if \<not> isAuthorized env userId chat then sendMessage chat NotAuthorized st
         else if messageText = js ''/start'' then sendMessage chat Welcome st
         else if messageText = js ''/help'' then sendMessage chat Help st
         else
           (case (if reply_to_message msg = Some (Some True)
                  then getCurrentChatSession env chat else None) of
              Some currentSession \<Rightarrow>
                processCommand env chat (p_token currentSession) messageText st
            | None \<Rightarrow>
                (case parseCommand messageText of
                   None \<Rightarrow> sendMessage chat InvalidFormat st
                 | Some (tok, command) \<Rightarrow> processCommand env chat tok command st)))"

text \<open>
  \<open>_handleCallbackQuery\<close> (lines 183-229). \<open>data.split(':')[1]\<close> is read in branches
  where \<open>data\<close> starts with a prefix that ends in a colon, so the split has a second
  part; \<open>second\<close> gives it, and the empty string where there is none.
\<close>

definition second :: "jsstring list \<Rightarrow> jsstring" where
  "second parts = (case parts of _ # part # _ \<Rightarrow> part | _ \<Rightarrow> [])"

definition handleCallbackQuery :: "webhook_env \<Rightarrow> callback_query \<Rightarrow> state \<Rightarrow> state" where
  "handleCallbackQuery env callbackQuery st =
     (let chat = cq_chat_id callbackQuery;
          data = cq_data callbackQuery;
          st = emit (AnswerCallbackQuery (cq_id callbackQuery)) st
      in if startsWith data (js ''personal:'')
         then sendMessage chat (PersonalFormat (second (split data colon))) st
         else if startsWith data (js ''group:'')
         then sendMessage chat (GroupFormat (botUsername env) (second (split data colon))) st
         else if startsWith data (js ''copy:'')
         then sendMessage chat (CopyFormat (second (split data colon))) st
         else if startsWith data (js ''format:'')
         then sendMessage chat (CommandFormat (second (split data colon))) st
         else if startsWith data (js ''quickcmd:'')
         then
           (let parts = split data colon;
                tok = second parts;
                command = join (drop 2 parts) colon
            in processCommand env chat tok command st)
         else if startsWith data (js ''session:'')
         then sendMessage chat (SessionHelp (second (split data colon))) st
         else st)"

text \<open>
  \<open>_handleWebhook\<close> (lines 57-73): the update goes to one handler, and the answer is
  the HTTP status 200.
\<close>

definition handleWebhook :: "webhook_env \<Rightarrow> update \<Rightarrow> state \<Rightarrow> nat \<times> state" where
  "handleWebhook env upd st =
     (case upd_message upd of
        Some msg \<Rightarrow> (200, handleMessage env msg st)
      | None \<Rightarrow>
          (case upd_callback_query upd of
             Some callbackQuery \<Rightarrow> (200, handleCallbackQuery env callbackQuery st)
           | None \<Rightarrow> (200, st)))"

section \<open>A condition on the sessions directory\<close>

text \<open>
  \<open>onlySessionFile dir tok file\<close>: every file of the directory that holds a session
  with the token \<open>tok\<close> has the name \<open>file\<close>. For a session that \<open>_createSession\<close>
  wrote under its own identifier this says that no other stored session shares its token
  (the generator does not check for collisions).
\<close>

definition onlySessionFile :: "directory \<Rightarrow> jsstring \<Rightarrow> jsstring \<Rightarrow> bool" where
  "onlySessionFile dir tok file =
     list_all
       (\<lambda>(name, content).
          case content of
            SessionJson s \<Rightarrow> token s \<noteq> tok \<or> name = file
          | OtherContent \<Rightarrow> True)
       dir"

section \<open>Example inputs\<close>

text \<open>
  A handler environment with one configured chat, an empty persistent session manager
  and an injector that succeeds.
\<close>

definition demo_env :: webhook_env where
  "demo_env =
     \<lparr> wh_config =
         \<lparr> cfg_botToken = js ''bot'', cfg_chatId = js ''1001'', cfg_groupId = [],
           cfg_whitelist = [] \<rparr>,
       getSessionByToken = (\<lambda>tok. None),
       getCurrentChatSession = (\<lambda>chat. None),
       injectCommand = (\<lambda>command tmux. None),
       dateNow = 1700000000000,
       botUsername = js ''claude_remote_bot'' \<rparr>"

text \<open>
  A session as a notification leaves it in the directory, valid at the reading of the
  clock of \<open>demo_env\<close>, and the state with that one session file.
\<close>

definition demo_session :: session where
  "demo_session =
     \<lparr> sess_id = js ''5f0c'', token = js ''ABC12345'', createdAt = Some 1699990000,
       expiresAt = 1700076400, tmuxSession = js ''main'', project = js ''repo-x'',
       sess_chatId = None \<rparr>"

definition demo_state :: state where
  "demo_state = \<lparr> files = [(js ''5f0c.json'', SessionJson demo_session)], trace = [] \<rparr>"

text \<open>
  The same environment with a persistent session that is the current one of chat
  \<open>1001\<close>.
\<close>

definition demo_psession :: psession where
  "demo_psession =
     \<lparr> p_sessionId = js ''77aa'', p_token = js ''XYZ98765'', p_tmuxSession = js ''work'',
       p_project = js ''repo-y'', p_expiresAt = 1700500000, p_chatId = js ''1001'' \<rparr>"

definition demo_reply_env :: webhook_env where
  "demo_reply_env =
     demo_env
       \<lparr> getSessionByToken := (\<lambda>tok. if tok = js ''XYZ98765'' then Some demo_psession else None),
         getCurrentChatSession := (\<lambda>chat. if chat = js ''1001'' then Some demo_psession else None) \<rparr>"

text \<open>
  Two readings of the clock: the second at which \<open>demo_session\<close> expires, and the
  second after it.
\<close>

definition demo_env_at_expiry :: webhook_env where
  "demo_env_at_expiry = demo_env \<lparr> dateNow := 1700076400999 \<rparr>"

definition demo_env_after_expiry :: webhook_env where
  "demo_env_after_expiry = demo_env \<lparr> dateNow := 1700076401000 \<rparr>"

text \<open>A configured channel whose post to the chat platform fails.\<close>

definition demo_channel_env :: channel_env where
  "demo_channel_env =
     \<lparr> ch_config =
         \<lparr> cfg_botToken = js ''bot'', cfg_chatId = js ''1001'', cfg_groupId = [],
           cfg_whitelist = [] \<rparr>,
       uuidv4 = js ''9d2e'',
       random = (\<lambda>i. \<lparr> mant = 1, expo = - 1 \<rparr>),
       currentTmuxSession = js ''main'',
       recentConversation = (\<lambda>tmux. (js ''what next?'', js ''All tests pass.'')),
       dateNow_createdAt = 1700000000123,
       dateNow_expiresAt = 1700000000123,
       postSucceeds = False \<rparr>"

definition demo_notification :: notification where
  "demo_notification =
     \<lparr> n_type = js ''completed'', n_project = js ''repo-x'', n_message = js ''done'',
       n_metadata = None \<rparr>"



section \<open>Properties of the token generator\<close>

lemma bitLength_zero: "bitLength 0 = 0"
  by (subst bitLength.simps) simp

lemma bitLength_one: "bitLength (Suc 0) = Suc 0"
  by (subst bitLength.simps) (simp add: bitLength_zero)

lemma bitLength_pos: "bitLength n \<noteq> 0 \<Longrightarrow> n \<noteq> 0"
  by (cases "n = 0") (simp_all add: bitLength_zero)

lemma bitLength_upper: "n < 2 ^ bitLength n"
proof (induction n rule: bitLength.induct)
  case (1 n)
  show ?case
  proof (cases "n = 0")
    case True
    then show ?thesis by simp
  next
    case False
    with "1.IH" have "n div 2 < 2 ^ bitLength (n div 2)"
      by simp
    then have "n < 2 * 2 ^ bitLength (n div 2)"
      by linarith
    with False show ?thesis
      by (subst bitLength.simps) simp
  qed
qed

lemma bitLength_lower: "n \<noteq> 0 \<Longrightarrow> 2 ^ (bitLength n - 1) \<le> n"
proof (induction n rule: bitLength.induct)
  case (1 n)
  show ?case
  proof (cases "n div 2 = 0")
    case True
    with "1.prems" have "n = Suc 0"
      by linarith
    then show ?thesis
      by (simp add: bitLength_one)
  next
    case False
    with "1.IH" "1.prems" have half: "2 ^ (bitLength (n div 2) - 1) \<le> n div 2"
      by simp
    from False have pos: "bitLength (n div 2) \<noteq> 0"
      by (subst bitLength.simps) simp
    have "bitLength n = Suc (bitLength (n div 2))"
      using "1.prems" by (subst bitLength.simps) simp
    then have "(2::nat) ^ (bitLength n - 1) = 2 * 2 ^ (bitLength (n div 2) - 1)"
      using pos by (cases "bitLength (n div 2)") simp_all
    with half show ?thesis
      by linarith
  qed
qed

lemma bitLength_le:
  assumes "n < 2 ^ b"
  shows "bitLength n \<le> b"
proof (rule ccontr)
  assume "\<not> bitLength n \<le> b"
  then have long: "b \<le> bitLength n - 1" and pos: "bitLength n \<noteq> 0"
    by simp_all
  from pos have "n \<noteq> 0"
    by (rule bitLength_pos)
  then have "2 ^ (bitLength n - 1) \<le> n"
    by (rule bitLength_lower)
  moreover from long have "(2::nat) ^ b \<le> 2 ^ (bitLength n - 1)"
    by (rule power_increasing) simp
  ultimately show False
    using assms by linarith
qed

lemma roundHalfEven_zero: "roundHalfEven M 0 = M"
  by (simp add: roundHalfEven_def)

lemma roundHalfEven_cases:
  "roundHalfEven M s = M div 2 ^ s
   \<or> (roundHalfEven M s = M div 2 ^ s + 1 \<and> 2 ^ s \<le> 2 * (M mod 2 ^ s))"
  by (auto simp: roundHalfEven_def Let_def)

text \<open>
  The index of a draw is in range. The exact product \<open>36 * m * 2 ^ e\<close> is below 36;
  rounding could only reach 36 from the last double below it, and the largest product,
  that of the largest double below one, is too far from 36 for that.
\<close>

lemma index_in_range:
  assumes "belowOne d"
  shows "0 \<le> mathFloor (multiply d 36) \<and> mathFloor (multiply d 36) < 36"
proof (cases "mant d = 0")
  case True
  then show ?thesis
    by (simp add: multiply_def mathFloor_def bitLength_zero roundHalfEven_zero)
next
  case False
  define m where "m = mant d"
  define k where "k = nat (- expo d)"
  define M where "M = m * 36"
  define s where "s = bitLength M - 53"
  define q' where "q' = roundHalfEven M s"
  from assms False have m53: "m < 2 ^ 53" and neg: "expo d < 0" and mk: "m < 2 ^ k"
    by (simp_all add: belowOne_def m_def k_def)
  from neg have e: "expo d = - int k" and kpos: "0 < k"
    by (simp_all add: k_def)
  from mk have "m + 1 \<le> 2 ^ k"
    by simp
  then have top: "M + 36 \<le> 36 * 2 ^ k"
    by (simp add: M_def)
  have result: "multiply d 36 = \<lparr> mant = q', expo = int s - int k \<rparr>"
    by (simp add: multiply_def Let_def q'_def s_def M_def m_def e)
  have nonneg: "0 \<le> mathFloor (multiply d 36)"
    by (simp add: result mathFloor_def pos_imp_zdiv_nonneg_iff)
  have below: "mathFloor (multiply d 36) < 36"
  proof (cases "s = 0")
    case True
    then have "q' = M"
      by (simp add: q'_def roundHalfEven_zero)
    moreover from top have "M div 2 ^ k < 36"
      by (simp add: less_mult_imp_div_less)
    ultimately have "int q' div 2 ^ k < 36"
      by (metis of_nat_numeral of_nat_less_iff of_nat_power zdiv_int)
    with True kpos show ?thesis
      by (simp add: result mathFloor_def)
  next
    case False
    then have s: "bitLength M = 53 + s" "bitLength M \<noteq> 0"
      by (simp_all add: s_def)
    from s(2) have "M \<noteq> 0"
      by (rule bitLength_pos)
    then have "2 ^ (bitLength M - 1) \<le> M"
      by (rule bitLength_lower)
    moreover have "bitLength M - 1 = 52 + s"
      using s(1) by simp
    ultimately have big: "2 ^ (52 + s) \<le> M"
      by (simp only:)
    also from top have "M < 36 * 2 ^ k"
      by linarith
    also have "36 * (2::nat) ^ k \<le> 2 ^ 6 * 2 ^ k"
      by simp
    also have "(2::nat) ^ 6 * 2 ^ k = 2 ^ (6 + k)"
      by (simp only: power_add)
    finally have "52 + s < 6 + k"
      by simp
    then have ks: "s < k" "47 \<le> k - s"
      by simp_all
    define G where "G = 36 * (2::nat) ^ (k - s)"
    have GP: "G * 2 ^ s = 36 * 2 ^ k"
      using ks(1) by (simp add: G_def power_add [symmetric])
    from m53 have "M < 36 * 2 ^ 53"
      by (simp add: M_def)
    also have "\<dots> < (2::nat) ^ 59"
      by simp
    finally have "bitLength M \<le> 59"
      by (rule bitLength_le)
    with s(1) have s6: "s \<le> 6"
      by simp
    then have P64: "(2::nat) ^ s \<le> 64"
      using power_increasing [of s 6 "2::nat"] by simp
    define q where "q = M div 2 ^ s"
    define r where "r = M mod 2 ^ s"
    have split: "q * 2 ^ s + r = M"
      unfolding q_def r_def by (rule div_mult_mod_eq)
    from top GP have "M < G * 2 ^ s"
      by simp
    then have qG: "q < G"
      by (simp add: q_def less_mult_imp_div_less)
    have "q' < G"
    proof (rule ccontr)
      assume "\<not> q' < G"
      with qG roundHalfEven_cases [of M s]
      have up: "q' = q + 1" and tie: "2 ^ s \<le> 2 * r"
        by (auto simp: q'_def q_def r_def)
      with qG \<open>\<not> q' < G\<close> have "G = q + 1"
        by simp
      then have "G * 2 ^ s = q * 2 ^ s + 2 ^ s"
        by (simp add: algebra_simps)
      with split GP top have "r + 36 \<le> 2 ^ s"
        by simp
      with tie P64 show False
        by simp
    qed
    then have "q' div 2 ^ (k - s) < 36"
      by (simp add: G_def less_mult_imp_div_less mult.commute)
    then have "int q' div 2 ^ (k - s) < 36"
      by (metis of_nat_numeral of_nat_less_iff of_nat_power zdiv_int)
    moreover have "nat (int k - int s) = k - s"
      by simp
    ultimately show ?thesis
      using ks(1) by (simp add: result mathFloor_def)
  qed
  from nonneg below show ?thesis ..
qed

lemma bitLength_numeral: "bitLength (numeral k) = Suc (bitLength (numeral k div 2))"
  by (subst bitLength.simps) simp

lemmas bitLength_eval = bitLength_zero bitLength_one bitLength_numeral

lemmas double_defs = belowOne_def multiply_def mathFloor_def roundHalfEven_def Let_def

text \<open>
  Rounding matters: for the draw \<open>0.8888888888888888\<close>, which is
  \<open>8006399337547548 * 2 ^ - 53\<close>, the exact product with 36 is below 32 and the double
  product is 32.
\<close>

lemma multiply_rounds_example:
  "belowOne \<lparr> mant = 8006399337547548, expo = - 53 \<rparr>
   \<and> (8006399337547548 * 36) div (2 ^ 53 :: nat) = 31
   \<and> mathFloor (multiply \<lparr> mant = 8006399337547548, expo = - 53 \<rparr> 36) = 32"
  by (simp add: double_defs bitLength_eval)

lemma length_chars: "length chars = 36"
  by (simp add: chars_def js_def)

lemma chars_alphabet: "list_all (\<lambda>c. isUpper c \<or> isDigit c) chars"
  by (simp add: chars_def js_def isUpper_def isDigit_def)

lemma charAt_chars_draw:
  assumes "belowOne d"
  shows "\<exists>c. charAt chars (mathFloor (multiply d (length chars))) = [c]
    \<and> (isUpper c \<or> isDigit c)"
proof -
  define k where "k = mathFloor (multiply d (length chars))"
  from index_in_range [OF assms] have lo: "0 \<le> k" and hi: "k < 36"
    by (simp_all add: k_def length_chars)
  from lo hi have idx: "nat k < length chars"
    unfolding length_chars by linarith
  have "charAt chars k = [chars ! nat k]"
    using lo hi by (simp add: charAt_def length_chars)
  moreover have "isUpper (chars ! nat k) \<or> isDigit (chars ! nat k)"
    using chars_alphabet idx by (simp add: list_all_length)
  ultimately show ?thesis
    unfolding k_def by blast
qed

lemma generateToken_loop_shape:
  assumes "\<forall>j<8. belowOne (draw j)"
    and "list_all (\<lambda>c. isUpper c \<or> isDigit c) tok"
  shows "length (generateToken_loop draw i tok) = length tok + (8 - i)
         \<and> list_all (\<lambda>c. isUpper c \<or> isDigit c) (generateToken_loop draw i tok)"
  using assms
proof (induction draw i tok rule: generateToken_loop.induct)
  case (1 draw i tok)
  show ?case
  proof (cases "i < 8")
    case True
    with "1.prems" obtain c where
      c: "charAt chars (mathFloor (multiply (draw i) (length chars))) = [c]"
        "isUpper c \<or> isDigit c"
      using charAt_chars_draw by blast
    have "list_all (\<lambda>c. isUpper c \<or> isDigit c) (tok @ [c])"
      using "1.prems"(2) c(2) by simp
    with "1.IH" [OF True "1.prems"(1)] c(1) True show ?thesis
      by (subst generateToken_loop.simps, subst (2) generateToken_loop.simps) auto
  next
    case False
    with "1.prems" show ?thesis
      by (subst generateToken_loop.simps, subst (2) generateToken_loop.simps) simp
  qed
qed

text \<open>
  C8. Whatever doubles in \<open>[0, 1)\<close> the eight calls of \<open>Math.random()\<close> return, the
  generated token has exactly 8 characters and each of them is an uppercase letter or a
  digit.
\<close>

theorem generateToken_length_alphabet:
  assumes "\<forall>j<8. belowOne (draw j)"
  shows "length (generateToken draw) = 8
         \<and> list_all (\<lambda>c. isUpper c \<or> isDigit c) (generateToken draw)"
  using generateToken_loop_shape [OF assms, of "[]" 0]
  by (simp add: generateToken_def)

theorem generateToken_length_alphabet_witness:
  "belowOne \<lparr> mant = 8006399337547548, expo = - 53 \<rparr>
   \<and> length (generateToken (\<lambda>j. \<lparr> mant = 8006399337547548, expo = - 53 \<rparr>)) = 8
   \<and> list_all (\<lambda>c. isUpper c \<or> isDigit c)
        (generateToken (\<lambda>j. \<lparr> mant = 8006399337547548, expo = - 53 \<rparr>))
   \<and> generateToken (\<lambda>j. \<lparr> mant = 8006399337547548, expo = - 53 \<rparr>) = js ''66666666''"
proof -
  have draw: "belowOne \<lparr> mant = 8006399337547548, expo = - 53 \<rparr>"
    by (simp add: belowOne_def)
  then have draws: "\<forall>j<8. belowOne ((\<lambda>j::nat. \<lparr> mant = 8006399337547548, expo = - 53 \<rparr>) j)"
    by simp
  have index: "mathFloor (multiply \<lparr> mant = 8006399337547548, expo = - 53 \<rparr> (length chars)) = 32"
    by (simp add: length_chars double_defs bitLength_eval)
  have char: "charAt chars (mathFloor (multiply \<lparr> mant = 8006399337547548, expo = - 53 \<rparr>
      (length chars))) = js ''6''"
    unfolding index by (simp add: charAt_def chars_def js_def)
  have "generateToken (\<lambda>j. \<lparr> mant = 8006399337547548, expo = - 53 \<rparr>)
      = js ''6'' @ js ''6'' @ js ''6'' @ js ''6'' @ js ''6'' @ js ''6'' @ js ''6'' @ js ''6''"
    by (simp add: generateToken_def generateToken_loop.simps [of _ 0]
        generateToken_loop.simps [of _ "Suc 0"] generateToken_loop.simps [of _ 2]
        generateToken_loop.simps [of _ 3] generateToken_loop.simps [of _ 4]
        generateToken_loop.simps [of _ 5] generateToken_loop.simps [of _ 6]
        generateToken_loop.simps [of _ 7] generateToken_loop.simps [of _ 8] char)
  then have "generateToken (\<lambda>j. \<lparr> mant = 8006399337547548, expo = - 53 \<rparr>) = js ''66666666''"
    by (simp add: js_def)
  with generateToken_length_alphabet [OF draws] draw show ?thesis
    by simp
qed

section \<open>Properties of the callback payloads\<close>

lemma split_append_separator:
  "d \<notin> set s \<Longrightarrow> split (s @ d # rest) d = s # split rest d"
  by (induction s) auto

lemma split_not_Nil: "split s d \<noteq> []"
  by (induction s) (auto split: list.splits)

lemma join_Cons: "parts \<noteq> [] \<Longrightarrow> join (part # parts) d = part @ d # join parts d"
  by (cases parts) auto

lemma join_split: "join (split s d) d = s"
proof (induction s)
  case Nil
  show ?case by simp
next
  case (Cons c cs)
  show ?case
  proof (cases "c = d")
    case True
    with Cons split_not_Nil [of cs d] show ?thesis
      by (simp add: join_Cons)
  next
    case False
    obtain part parts where sp: "split cs d = part # parts"
      using split_not_Nil [of cs d] by (cases "split cs d") auto
    with Cons False show ?thesis
      by (cases parts) auto
  qed
qed

lemma quickcmd_branch:
  "\<not> startsWith (js ''quickcmd:'' @ rest) (js ''personal:'')"
  "\<not> startsWith (js ''quickcmd:'' @ rest) (js ''group:'')"
  "\<not> startsWith (js ''quickcmd:'' @ rest) (js ''copy:'')"
  "\<not> startsWith (js ''quickcmd:'' @ rest) (js ''format:'')"
  "startsWith (js ''quickcmd:'' @ rest) (js ''quickcmd:'')"
  by (simp_all add: startsWith_def js_def)

lemma split_quickcmd:
  assumes "colon \<notin> set T"
  shows "split (js ''quickcmd:'' @ T @ colon # C) colon = js ''quickcmd'' # T # split C colon"
proof -
  have eq: "js ''quickcmd:'' @ T @ colon # C = js ''quickcmd'' @ colon # (T @ colon # C)"
    by (simp add: js_def colon_def)
  have "colon \<notin> set (js ''quickcmd'')"
    by (simp add: js_def colon_def)
  then have "split (js ''quickcmd'' @ colon # (T @ colon # C)) colon
      = js ''quickcmd'' # split (T @ colon # C) colon"
    by (rule split_append_separator)
  also have "split (T @ colon # C) colon = T # split C colon"
    using assms by (rule split_append_separator)
  finally show ?thesis
    by (simp only: eq)
qed

text \<open>
  What \<open>_processCommand\<close> does for a token whose session is found and has not expired:
  the command goes to the injector with the session's tmux target (\<open>default\<close> when the
  session names none), the operator gets the confirmation, or the failure reply when the
  injector throws, and the directory stays as it is.
\<close>

lemma processCommand_live:
  assumes "findSessionByToken env (files st) tok = Some session"
    and "\<not> expiresAt session < dateNow env div 1000"
  shows "files (processCommand env chat tok command st) = files st
    \<and> trace (processCommand env chat tok command st)
      = trace st
        @ (let tmux = (if tmuxSession session \<noteq> [] then tmuxSession session else js ''default'')
           in [InjectCommand command tmux,
               SendMessage chat
                 (case injectCommand env command tmux of
                    None \<Rightarrow> CommandSent command tmux
                  | Some errorMessage \<Rightarrow> CommandFailed errorMessage)])"
  using assms
  by (simp add: processCommand_def sendMessage_def emit_def Let_def split: option.splits)

text \<open>
  C9. For a token \<open>T\<close> without a colon and any command \<open>C\<close> (colons in it or not),
  the payload \<open>quickcmd:T:C\<close> is split back into exactly \<open>T\<close> and \<open>C\<close>, and the
  handler answers the callback and then processes the command \<open>C\<close> for the token \<open>T\<close>:
  when the lookup of \<open>T\<close> finds a session that has not expired, exactly \<open>C\<close> is
  injected into the target of that session and the outcome is reported to the chat.
\<close>

theorem handleCallbackQuery_quickcmd_roundtrip:
  assumes "colon \<notin> set T"
  shows "second (split (js ''quickcmd:'' @ T @ colon # C) colon) = T
    \<and> join (drop 2 (split (js ''quickcmd:'' @ T @ colon # C) colon)) colon = C
    \<and> handleCallbackQuery env
        \<lparr> cq_id = qid, cq_chat_id = chat, cq_data = js ''quickcmd:'' @ T @ colon # C \<rparr> st
      = processCommand env chat T C (emit (AnswerCallbackQuery qid) st)
    \<and> (findSessionByToken env (files st) T = Some session
          \<and> \<not> expiresAt session < dateNow env div 1000
        \<longrightarrow> files (handleCallbackQuery env
              \<lparr> cq_id = qid, cq_chat_id = chat, cq_data = js ''quickcmd:'' @ T @ colon # C \<rparr> st)
            = files st
          \<and> trace (handleCallbackQuery env
              \<lparr> cq_id = qid, cq_chat_id = chat, cq_data = js ''quickcmd:'' @ T @ colon # C \<rparr> st)
            = trace st
              @ (let tmux = (if tmuxSession session \<noteq> [] then tmuxSession session
                             else js ''default'')
                 in [AnswerCallbackQuery qid,
                     InjectCommand C tmux,
                     SendMessage chat
                       (case injectCommand env C tmux of
                          None \<Rightarrow> CommandSent C tmux
                        | Some errorMessage \<Rightarrow> CommandFailed errorMessage)]))"
proof -
  let ?data = "js ''quickcmd:'' @ T @ colon # C"
  let ?query = "\<lparr> cq_id = qid, cq_chat_id = chat, cq_data = ?data \<rparr>"
  have parts: "split ?data colon = js ''quickcmd'' # T # split C colon"
    using assms by (rule split_quickcmd)
  have tok: "second (split ?data colon) = T"
    by (simp only: parts second_def list.case)
  have command: "join (drop 2 (split ?data colon)) colon = C"
    by (simp add: parts join_split)
  have handled: "handleCallbackQuery env ?query st
      = processCommand env chat T C (emit (AnswerCallbackQuery qid) st)"
    unfolding handleCallbackQuery_def Let_def
    by (simp only: callback_query.simps quickcmd_branch if_True if_False tok command)
  have answered: "files (emit (AnswerCallbackQuery qid) st) = files st"
    "trace (emit (AnswerCallbackQuery qid) st) = trace st @ [AnswerCallbackQuery qid]"
    by (simp_all add: emit_def)
  have dispatched: "files (handleCallbackQuery env ?query st) = files st
      \<and> trace (handleCallbackQuery env ?query st)
        = trace st
          @ (let tmux = (if tmuxSession session \<noteq> [] then tmuxSession session
                         else js ''default'')
             in [AnswerCallbackQuery qid,
                 InjectCommand C tmux,
                 SendMessage chat
                   (case injectCommand env C tmux of
                      None \<Rightarrow> CommandSent C tmux
                    | Some errorMessage \<Rightarrow> CommandFailed errorMessage)])"
    if "findSessionByToken env (files st) T = Some session"
      and "\<not> expiresAt session < dateNow env div 1000"
  proof -
    from that(1) have "findSessionByToken env (files (emit (AnswerCallbackQuery qid) st)) T
        = Some session"
      by (simp only: answered)
    from processCommand_live [OF this that(2), of chat C] show ?thesis
      by (simp add: handled answered Let_def)
  qed
  from tok command handled dispatched show ?thesis
    by blast
qed

theorem handleCallbackQuery_quickcmd_roundtrip_witness:
  "colon \<notin> set (js ''ABC12345'')
   \<and> findSessionByToken demo_env (files demo_state) (js ''ABC12345'') = Some demo_session
   \<and> \<not> expiresAt demo_session < dateNow demo_env div 1000
   \<and> second (split (js ''quickcmd:ABC12345:git commit -m a:b'') colon) = js ''ABC12345''
   \<and> join (drop 2 (split (js ''quickcmd:ABC12345:git commit -m a:b'') colon)) colon
       = js ''git commit -m a:b''
   \<and> handleCallbackQuery demo_env
        \<lparr> cq_id = js ''q1'', cq_chat_id = js ''1001'',
          cq_data = js ''quickcmd:ABC12345:git commit -m a:b'' \<rparr> demo_state
      = \<lparr> files = files demo_state,
          trace = [AnswerCallbackQuery (js ''q1''),
                   InjectCommand (js ''git commit -m a:b'') (js ''main''),
                   SendMessage (js ''1001'')
                     (CommandSent (js ''git commit -m a:b'') (js ''main''))] \<rparr>"
proof -
  let ?query = "\<lparr> cq_id = js ''q1'', cq_chat_id = js ''1001'',
      cq_data = js ''quickcmd:ABC12345:git commit -m a:b'' \<rparr>"
  have no_colon: "colon \<notin> set (js ''ABC12345'')"
    by (simp add: js_def colon_def)
  have found: "findSessionByToken demo_env (files demo_state) (js ''ABC12345'') = Some demo_session"
    by (simp add: findSessionByToken_def readdirSync_def demo_env_def demo_state_def
        demo_session_def endsWith_def js_def)
  have live: "\<not> expiresAt demo_session < dateNow demo_env div 1000"
    by (simp add: demo_session_def demo_env_def)
  have data: "js ''quickcmd:ABC12345:git commit -m a:b''
      = js ''quickcmd:'' @ js ''ABC12345'' @ colon # js ''git commit -m a:b''"
    by (simp add: js_def colon_def)
  have target: "tmuxSession demo_session = js ''main''" "js ''main'' \<noteq> []"
    "injectCommand demo_env (js ''git commit -m a:b'') (js ''main'') = None"
    "trace demo_state = []"
    by (simp_all add: demo_session_def demo_env_def demo_state_def js_def)
  from handleCallbackQuery_quickcmd_roundtrip [OF no_colon, of "js ''git commit -m a:b''" demo_env
      "js ''q1''" "js ''1001''" demo_state demo_session] found live
  have parsed: "second (split (js ''quickcmd:ABC12345:git commit -m a:b'') colon) = js ''ABC12345''"
      "join (drop 2 (split (js ''quickcmd:ABC12345:git commit -m a:b'') colon)) colon
        = js ''git commit -m a:b''"
    and kept: "files (handleCallbackQuery demo_env ?query demo_state) = files demo_state"
    and sent: "trace (handleCallbackQuery demo_env ?query demo_state)
      = [AnswerCallbackQuery (js ''q1''),
         InjectCommand (js ''git commit -m a:b'') (js ''main''),
         SendMessage (js ''1001'') (CommandSent (js ''git commit -m a:b'') (js ''main''))]"
    unfolding data [symmetric] by (auto simp: target Let_def)
  have "handleCallbackQuery demo_env ?query demo_state
      = \<lparr> files = files demo_state,
          trace = [AnswerCallbackQuery (js ''q1''),
                   InjectCommand (js ''git commit -m a:b'') (js ''main''),
                   SendMessage (js ''1001'')
                     (CommandSent (js ''git commit -m a:b'') (js ''main''))] \<rparr>"
    using kept sent by (cases "handleCallbackQuery demo_env ?query demo_state") simp
  with no_colon found live parsed show ?thesis
    by blast
qed

section \<open>Properties of the command parser\<close>

text \<open>The definitions that evaluate character classes on a literal.\<close>

lemmas char_defs = js_def isUpper_def isLower_def isDigit_def isWhiteSpace_def
  isLineTerminator_def isTokenChar_def toUpper_def toUpperCase_def colon_def nl_def

lemma trim_id:
  assumes "s \<noteq> []" and "\<not> isWhiteSpace (hd s)" and "\<not> isWhiteSpace (last s)"
  shows "trim s = s"
proof -
  have "dropWhile isWhiteSpace s = s"
    using assms(2) by (simp add: dropWhile_eq_self_iff)
  moreover have "dropWhile isWhiteSpace (rev s) = rev s"
    using assms(1,3) by (simp add: dropWhile_eq_self_iff hd_rev)
  ultimately show ?thesis
    by (simp add: trim_def)
qed

lemma tokenChar_not_space: "isTokenChar ic c \<Longrightarrow> \<not> isWhiteSpace c"
  by (auto simp: isTokenChar_def isUpper_def isLower_def isDigit_def isWhiteSpace_def
      isLineTerminator_def)

lemma tokenChar_not_slash: "isTokenChar ic c \<Longrightarrow> toUpper c \<noteq> 47"
  by (auto simp: isTokenChar_def isUpper_def isLower_def isDigit_def toUpper_def)

lemma re_literal_i_cmd: "re_literal_i (js ''/cmd'') k (js ''/cmd'' @ s) = k s"
  by (simp add: js_def)

lemma re_literal_i_cmd_no_slash:
  assumes "s \<noteq> []" and "toUpper (hd s) \<noteq> 47"
  shows "re_literal_i (js ''/cmd'') k s = None"
  using assms by (cases s) (simp_all add: js_def toUpper_def isLower_def)

lemma re_token_append:
  assumes "length T = 8" and "list_all (isTokenChar ic) T"
  shows "re_token ic k (T @ s) = k T s"
  using assms by (simp add: re_token_def)

lemma re_token_no_token:
  assumes "\<not> isTokenChar ic c"
  shows "re_token ic k (c # s) = None"
proof -
  have "take 8 (c # s) = c # take 7 s"
    by (simp add: take_Cons')
  with assms show ?thesis
    by (simp add: re_token_def)
qed

lemma re_spaces_no_space:
  assumes "s \<noteq> []" and "\<not> isWhiteSpace (hd s)"
  shows "re_spaces k s = None"
  using assms by (cases s) simp_all

lemma re_spaces_one:
  assumes "isWhiteSpace c" and "s \<noteq> []" and "\<not> isWhiteSpace (hd s)"
  shows "re_spaces k (c # s) = k s"
  using assms by (simp add: re_spaces_no_space)

lemma re_rest_line:
  assumes "C \<noteq> []" and "list_all (\<lambda>c. \<not> isLineTerminator c) C"
  shows "re_rest C = Some C"
  using assms by (simp add: re_rest_def)

lemma space_32: "isWhiteSpace 32" "\<not> isTokenChar ic 32"
  by (simp_all add: isWhiteSpace_def isTokenChar_def isUpper_def isLower_def isDigit_def)

lemma token_then_command_match:
  assumes "length T = 8" and "list_all (isTokenChar ic) T"
    and "C \<noteq> []" and "\<not> isWhiteSpace (hd C)" and "list_all (\<lambda>c. \<not> isLineTerminator c) C"
  shows "token_then_command ic (T @ 32 # C) = Some (T, C)"
proof -
  have "re_spaces (\<lambda>s. map_option (Pair T) (re_rest s)) (32 # C) = map_option (Pair T) (re_rest C)"
    using space_32(1) assms(3,4) by (rule re_spaces_one)
  moreover have "re_rest C = Some C"
    using assms(3,5) by (rule re_rest_line)
  ultimately show ?thesis
    using assms(1,2) by (simp add: token_then_command_def re_token_append)
qed

lemma token_hd:
  assumes "length T = 8" and "list_all (isTokenChar ic) T"
  shows "T \<noteq> []" and "isTokenChar ic (hd T)"
  using assms by (cases T; simp)+

lemma newFormatMatch_attached:
  assumes "length T = 8" and "list_all (isTokenChar True) T"
    and "C \<noteq> []" and "\<not> isWhiteSpace (hd C)" and "list_all (\<lambda>c. \<not> isLineTerminator c) C"
  shows "newFormatMatch (js ''/cmd'' @ T @ 32 # C) = Some (T, C)"
  using assms by (simp add: newFormatMatch_def re_literal_i_cmd token_then_command_match)

lemma newFormatMatch_spaced:
  "newFormatMatch (js ''/cmd'' @ 32 # s) = None"
  by (simp add: newFormatMatch_def re_literal_i_cmd token_then_command_def re_token_no_token
      space_32)

lemma oldFormatMatch_spaced:
  assumes "length T = 8" and "list_all (isTokenChar True) T"
    and "C \<noteq> []" and "\<not> isWhiteSpace (hd C)" and "list_all (\<lambda>c. \<not> isLineTerminator c) C"
  shows "oldFormatMatch (js ''/cmd'' @ 32 # T @ 32 # C) = Some (T, C)"
proof -
  from token_hd [OF assms(1,2)] have "T @ 32 # C \<noteq> []" "\<not> isWhiteSpace (hd (T @ 32 # C))"
    by (simp_all add: tokenChar_not_space)
  then have "re_spaces (token_then_command True) (32 # T @ 32 # C)
      = token_then_command True (T @ 32 # C)"
    using space_32(1) by (intro re_spaces_one)
  with assms show ?thesis
    by (simp add: oldFormatMatch_def re_literal_i_cmd token_then_command_match)
qed

lemma prefixed_no_match_bare:
  assumes "length T = 8" and "list_all (isTokenChar ic) T"
  shows "newFormatMatch (T @ s) = None" and "oldFormatMatch (T @ s) = None"
proof -
  from token_hd [OF assms] have "T @ s \<noteq> []" "toUpper (hd (T @ s)) \<noteq> 47"
    by (simp_all add: tokenChar_not_slash)
  then show "newFormatMatch (T @ s) = None" and "oldFormatMatch (T @ s) = None"
    by (simp_all add: newFormatMatch_def oldFormatMatch_def re_literal_i_cmd_no_slash)
qed

lemma directMatch_bare:
  assumes "length T = 8" and "list_all (isTokenChar False) T"
    and "C \<noteq> []" and "\<not> isWhiteSpace (hd C)" and "list_all (\<lambda>c. \<not> isLineTerminator c) C"
  shows "directMatch (T @ 32 # C) = Some (T, C)"
  using assms by (simp add: directMatch_def token_then_command_match)

text \<open>
  C3, as the code has it. For a token \<open>T\<close> of 8 letters and digits and a command \<open>C\<close>
  that is not empty, has no line terminator, and neither starts nor ends with white
  space, the attached form \<open>/cmd\<close>\<open>T\<close>\<open> \<close>\<open>C\<close> and the spaced form
  \<open>/cmd \<close>\<open>T\<close>\<open> \<close>\<open>C\<close> both parse to the uppercased token and \<open>C\<close> itself, and
  so does the bare form \<open>T\<close>\<open> \<close>\<open>C\<close> when \<open>T\<close> has no lowercase letter. (The message
  text is trimmed before it is parsed, and the white space after the token is skipped
  greedily, so white space at either end of \<open>C\<close> is not part of the command.)
\<close>

theorem parseCommand_three_forms:
  assumes "length T = 8" and "list_all (isTokenChar True) T"
    and "C \<noteq> []" and "\<not> isWhiteSpace (hd C)" and "\<not> isWhiteSpace (last C)"
    and "list_all (\<lambda>c. \<not> isLineTerminator c) C"
  shows "parseCommand (trim (js ''/cmd'' @ T @ js '' '' @ C)) = Some (toUpperCase T, C)
    \<and> parseCommand (trim (js ''/cmd '' @ T @ js '' '' @ C)) = Some (toUpperCase T, C)
    \<and> (list_all (isTokenChar False) T
        \<longrightarrow> parseCommand (trim (T @ js '' '' @ C)) = Some (toUpperCase T, C))"
proof -
  have attached: "js ''/cmd'' @ T @ js '' '' @ C = js ''/cmd'' @ T @ 32 # C"
    and spaced: "js ''/cmd '' @ T @ js '' '' @ C = js ''/cmd'' @ 32 # T @ 32 # C"
    and bare: "T @ js '' '' @ C = T @ 32 # C"
    by (simp_all add: js_def)
  have slash: "\<not> isWhiteSpace (hd (js ''/cmd'' @ s))" for s
    by (simp add: js_def isWhiteSpace_def isLineTerminator_def)
  have T: "T \<noteq> []" "\<not> isWhiteSpace (hd T)"
    using token_hd [OF assms(1,2)] by (simp_all add: tokenChar_not_space)
  have "trim (js ''/cmd'' @ T @ 32 # C) = js ''/cmd'' @ T @ 32 # C"
    using assms(3,5) slash by (intro trim_id) (simp_all add: js_def)
  then have 1: "parseCommand (trim (js ''/cmd'' @ T @ js '' '' @ C)) = Some (toUpperCase T, C)"
    using assms by (simp add: attached parseCommand_def newFormatMatch_attached)
  have "trim (js ''/cmd'' @ 32 # T @ 32 # C) = js ''/cmd'' @ 32 # T @ 32 # C"
    using assms(3,5) slash by (intro trim_id) (simp_all add: js_def)
  then have 2: "parseCommand (trim (js ''/cmd '' @ T @ js '' '' @ C)) = Some (toUpperCase T, C)"
    using assms
    by (simp add: spaced parseCommand_def newFormatMatch_spaced oldFormatMatch_spaced)
  have "trim (T @ 32 # C) = T @ 32 # C"
    using assms(3,5) T by (intro trim_id) simp_all
  then have 3: "parseCommand (trim (T @ js '' '' @ C)) = Some (toUpperCase T, C)"
    if "list_all (isTokenChar False) T"
    using assms that
    by (simp add: bare parseCommand_def prefixed_no_match_bare directMatch_bare)
  from 1 2 3 show ?thesis
    by blast
qed

lemmas parser_defs = parseCommand_def newFormatMatch_def oldFormatMatch_def directMatch_def
  token_then_command_def re_token_def re_rest_def trim_def

theorem parseCommand_three_forms_witness:
  "length (js ''ABC12345'') = 8
   \<and> list_all (isTokenChar True) (js ''ABC12345'')
   \<and> list_all (isTokenChar False) (js ''ABC12345'')
   \<and> js ''do X'' \<noteq> []
   \<and> \<not> isWhiteSpace (hd (js ''do X''))
   \<and> \<not> isWhiteSpace (last (js ''do X''))
   \<and> list_all (\<lambda>c. \<not> isLineTerminator c) (js ''do X'')
   \<and> parseCommand (trim (js ''/cmdABC12345 do X'')) = Some (js ''ABC12345'', js ''do X'')
   \<and> parseCommand (trim (js ''/cmd ABC12345 do X'')) = Some (js ''ABC12345'', js ''do X'')
   \<and> parseCommand (trim (js ''ABC12345 do X'')) = Some (js ''ABC12345'', js ''do X'')"
proof -
  have T: "length (js ''ABC12345'') = 8" "list_all (isTokenChar True) (js ''ABC12345'')"
    and T': "list_all (isTokenChar False) (js ''ABC12345'')"
    by (simp_all add: char_defs)
  have C: "js ''do X'' \<noteq> []" "\<not> isWhiteSpace (hd (js ''do X''))"
    "\<not> isWhiteSpace (last (js ''do X''))"
    "list_all (\<lambda>c. \<not> isLineTerminator c) (js ''do X'')"
    by (simp_all add: char_defs)
  have forms: "js ''/cmdABC12345 do X'' = js ''/cmd'' @ js ''ABC12345'' @ js '' '' @ js ''do X''"
    "js ''/cmd ABC12345 do X'' = js ''/cmd '' @ js ''ABC12345'' @ js '' '' @ js ''do X''"
    "js ''ABC12345 do X'' = js ''ABC12345'' @ js '' '' @ js ''do X''"
    by (simp_all add: js_def)
  have upper: "toUpperCase (js ''ABC12345'') = js ''ABC12345''"
    by (simp add: char_defs)
  from parseCommand_three_forms [OF T C] T T' C show ?thesis
    by (simp only: forms upper simp_thms)
qed

text \<open>
  C3 as the specification words it fails for a command that starts with white space:
  the command \<open>" x"\<close> comes back as \<open>"x"\<close>.
\<close>

theorem parseCommand_leading_space_counterexample:
  "length (js ''ABC12345'') = 8
   \<and> list_all (isTokenChar True) (js ''ABC12345'')
   \<and> js '' x'' \<noteq> []
   \<and> parseCommand (trim (js ''/cmd'' @ js ''ABC12345'' @ js '' '' @ js '' x''))
       = Some (js ''ABC12345'', js ''x'')
   \<and> parseCommand (trim (js ''/cmd'' @ js ''ABC12345'' @ js '' '' @ js '' x''))
       \<noteq> Some (toUpperCase (js ''ABC12345''), js '' x'')"
  by (simp add: parser_defs char_defs)

text \<open>
  C2. The two prefixed patterns carry the \<open>i\<close> flag and accept a token in lower case;
  the bare pattern does not carry it, so the same token is rejected there and the
  operator gets the usage hint, although the session exists. The scan of
  \<open>_findSessionByToken\<close> compares the token as it is given: the stored token
  \<open>ABC12345\<close> is not found under \<open>abc12345\<close>.
\<close>

theorem parseCommand_bare_lowercase_rejected:
  "parseCommand (trim (js ''/cmdabc12345 do X'')) = Some (js ''ABC12345'', js ''do X'')
   \<and> parseCommand (trim (js ''/cmd abc12345 do X'')) = Some (js ''ABC12345'', js ''do X'')
   \<and> parseCommand (trim (js ''abc12345 do X'')) = None
   \<and> handleMessage demo_env
        \<lparr> msg_chat_id = js ''1001'', msg_from_id = js ''42'',
          msg_text = Some (js ''abc12345 do X''), reply_to_message = None \<rparr> demo_state
      = sendMessage (js ''1001'') InvalidFormat demo_state
   \<and> findSessionByToken demo_env (files demo_state) (js ''ABC12345'') = Some demo_session
   \<and> findSessionByToken demo_env (files demo_state) (js ''abc12345'') = None"
proof -
  have 1: "parseCommand (trim (js ''/cmdabc12345 do X'')) = Some (js ''ABC12345'', js ''do X'')"
    by (simp add: parser_defs char_defs)
  have 2: "parseCommand (trim (js ''/cmd abc12345 do X'')) = Some (js ''ABC12345'', js ''do X'')"
    by (simp add: parser_defs char_defs)
  have 3: "parseCommand (trim (js ''abc12345 do X'')) = None"
    by (simp add: parser_defs char_defs)
  have auth: "isAuthorized demo_env (js ''42'') (js ''1001'')"
    by (simp add: isAuthorized_def demo_env_def js_def)
  have shape: "trim (js ''abc12345 do X'') \<noteq> []" "trim (js ''abc12345 do X'') \<noteq> js ''/start''"
    "trim (js ''abc12345 do X'') \<noteq> js ''/help''"
    by (simp_all add: trim_def char_defs)
  have 4: "handleMessage demo_env
        \<lparr> msg_chat_id = js ''1001'', msg_from_id = js ''42'',
          msg_text = Some (js ''abc12345 do X''), reply_to_message = None \<rparr> demo_state
      = sendMessage (js ''1001'') InvalidFormat demo_state"
    using auth shape 3 by (simp add: handleMessage_def)
  have 5: "findSessionByToken demo_env (files demo_state) (js ''ABC12345'') = Some demo_session"
    by (simp add: findSessionByToken_def readdirSync_def demo_env_def demo_state_def
        demo_session_def endsWith_def js_def)
  have 6: "findSessionByToken demo_env (files demo_state) (js ''abc12345'') = None"
    by (simp add: findSessionByToken_def readdirSync_def demo_env_def demo_state_def
        demo_session_def endsWith_def js_def)
  from 1 2 3 4 5 6 show ?thesis
    by blast
qed

section \<open>Properties of the message and callback handlers\<close>

text \<open>
  The authorization gate of the message path: a message whose sender fails
  \<open>_isAuthorized\<close> changes nothing when its trimmed text is empty, and otherwise gets
  the rejection and nothing else.
\<close>

lemma handleMessage_unauthorized:
  assumes "\<not> isAuthorized env (msg_from_id msg) (msg_chat_id msg)"
  shows "handleMessage env msg st
    = (if (case msg_text msg of None \<Rightarrow> [] | Some t \<Rightarrow> trim t) = [] then st
       else sendMessage (msg_chat_id msg) NotAuthorized st)"
  using assms by (simp add: handleMessage_def Let_def)

text \<open>
  C4, as the code has it. For a message of an authorized sender that is a reply to a
  message of the bot, whose trimmed text is not empty and is neither \<open>/start\<close> nor
  \<open>/help\<close>, and whose chat has a current session: the handler processes the whole
  trimmed text as the command for the token of that current session, whatever pattern the
  text would match.
\<close>

theorem handleMessage_reply_shortcut:
  assumes "msg_text msg = Some t"
    and "trim t \<noteq> []" and "trim t \<noteq> js ''/start''" and "trim t \<noteq> js ''/help''"
    and "isAuthorized env (msg_from_id msg) (msg_chat_id msg)"
    and "reply_to_message msg = Some (Some True)"
    and "getCurrentChatSession env (msg_chat_id msg) = Some currentSession"
  shows "handleMessage env msg st
    = processCommand env (msg_chat_id msg) (p_token currentSession) (trim t) st"
  using assms by (simp add: handleMessage_def)

lemma demo_authorized: "isAuthorized demo_reply_env (js ''42'') (js ''1001'')"
  by (simp add: isAuthorized_def demo_reply_env_def demo_env_def js_def)

theorem handleMessage_reply_shortcut_witness:
  "trim (js '' /cmdABC12345 run tests '') = js ''/cmdABC12345 run tests''
   \<and> parseCommand (js ''/cmdABC12345 run tests'') = Some (js ''ABC12345'', js ''run tests'')
   \<and> isAuthorized demo_reply_env (js ''42'') (js ''1001'')
   \<and> getCurrentChatSession demo_reply_env (js ''1001'') = Some demo_psession
   \<and> handleMessage demo_reply_env
        \<lparr> msg_chat_id = js ''1001'', msg_from_id = js ''42'',
          msg_text = Some (js '' /cmdABC12345 run tests ''),
          reply_to_message = Some (Some True) \<rparr> demo_state
      = processCommand demo_reply_env (js ''1001'') (js ''XYZ98765'')
          (js ''/cmdABC12345 run tests'') demo_state"
proof -
  let ?msg = "\<lparr> msg_chat_id = js ''1001'', msg_from_id = js ''42'',
      msg_text = Some (js '' /cmdABC12345 run tests ''),
      reply_to_message = Some (Some True) \<rparr>"
  have trimmed: "trim (js '' /cmdABC12345 run tests '') = js ''/cmdABC12345 run tests''"
    by (simp add: trim_def char_defs)
  have parsed: "parseCommand (js ''/cmdABC12345 run tests'')
      = Some (js ''ABC12345'', js ''run tests'')"
    by (simp add: parser_defs char_defs)
  have shape: "trim (js '' /cmdABC12345 run tests '') \<noteq> []"
    "trim (js '' /cmdABC12345 run tests '') \<noteq> js ''/start''"
    "trim (js '' /cmdABC12345 run tests '') \<noteq> js ''/help''"
    by (simp_all add: trimmed) (simp_all add: js_def)
  have current: "getCurrentChatSession demo_reply_env (js ''1001'') = Some demo_psession"
    by (simp add: demo_reply_env_def)
  have "handleMessage demo_reply_env ?msg demo_state
      = processCommand demo_reply_env (msg_chat_id ?msg) (p_token demo_psession)
          (trim (js '' /cmdABC12345 run tests '')) demo_state"
    by (rule handleMessage_reply_shortcut [where t = "js '' /cmdABC12345 run tests ''"])
      (simp_all add: shape demo_authorized current)
  then have "handleMessage demo_reply_env ?msg demo_state
      = processCommand demo_reply_env (js ''1001'') (js ''XYZ98765'')
          (js ''/cmdABC12345 run tests'') demo_state"
    by (simp add: trimmed demo_psession_def)
  with trimmed parsed demo_authorized current show ?thesis
    by blast
qed

text \<open>
  C4 as the specification words it fails for the text \<open>/help\<close>: sent as a reply to the
  bot in a chat with a current session, it is answered with the help message and is not
  injected as a command.
\<close>

theorem handleMessage_reply_help_counterexample:
  "isAuthorized demo_reply_env (js ''42'') (js ''1001'')
   \<and> getCurrentChatSession demo_reply_env (js ''1001'') = Some demo_psession
   \<and> handleMessage demo_reply_env
        \<lparr> msg_chat_id = js ''1001'', msg_from_id = js ''42'', msg_text = Some (js ''/help''),
          reply_to_message = Some (Some True) \<rparr> demo_state
      = sendMessage (js ''1001'') Help demo_state
   \<and> handleMessage demo_reply_env
        \<lparr> msg_chat_id = js ''1001'', msg_from_id = js ''42'', msg_text = Some (js ''/help''),
          reply_to_message = Some (Some True) \<rparr> demo_state
      \<noteq> processCommand demo_reply_env (js ''1001'') (p_token demo_psession) (js ''/help'')
          demo_state"
proof -
  let ?msg = "\<lparr> msg_chat_id = js ''1001'', msg_from_id = js ''42'', msg_text = Some (js ''/help''),
      reply_to_message = Some (Some True) \<rparr>"
  have current: "getCurrentChatSession demo_reply_env (js ''1001'') = Some demo_psession"
    by (simp add: demo_reply_env_def)
  have trimmed: "trim (js ''/help'') = js ''/help''"
    by (simp add: trim_def char_defs)
  have helped: "handleMessage demo_reply_env ?msg demo_state = sendMessage (js ''1001'') Help demo_state"
    using demo_authorized by (simp add: handleMessage_def trimmed) (simp add: js_def)
  have "trace (sendMessage (js ''1001'') Help demo_state) = [SendMessage (js ''1001'') Help]"
    by (simp add: sendMessage_def emit_def demo_state_def)
  moreover have "trace (processCommand demo_reply_env (js ''1001'') (p_token demo_psession)
        (js ''/help'') demo_state)
      = [InjectCommand (js ''/help'') (js ''work''),
         SendMessage (js ''1001'') (CommandSent (js ''/help'') (js ''work''))]"
    by (simp add: processCommand_def findSessionByToken_def demo_reply_env_def demo_env_def
        demo_psession_def demo_state_def sendMessage_def emit_def js_def Let_def)
  ultimately have "sendMessage (js ''1001'') Help demo_state
      \<noteq> processCommand demo_reply_env (js ''1001'') (p_token demo_psession) (js ''/help'')
          demo_state"
    by (metis list.inject effect.distinct(3))
  with demo_authorized current helped show ?thesis
    by simp
qed

text \<open>
  C7. A message from a chat that fails \<open>_isAuthorized\<close> gets the rejection and nothing
  else. A callback query from the same chat is not checked at all: its quick command is
  looked up in the sessions directory and injected.
\<close>

theorem handleCallbackQuery_unauthorized_injects:
  "\<not> isAuthorized demo_env (js ''666'') (js ''6666'')
   \<and> handleWebhook demo_env
        \<lparr> upd_message = Some \<lparr> msg_chat_id = js ''6666'', msg_from_id = js ''666'',
            msg_text = Some (js ''/cmdABC12345 make deploy''), reply_to_message = None \<rparr>,
          upd_callback_query = None \<rparr> demo_state
      = (200, \<lparr> files = files demo_state,
               trace = [SendMessage (js ''6666'') NotAuthorized] \<rparr>)
   \<and> handleWebhook demo_env
        \<lparr> upd_message = None,
          upd_callback_query = Some \<lparr> cq_id = js ''q7'', cq_chat_id = js ''6666'',
            cq_data = js ''quickcmd:ABC12345:make deploy'' \<rparr> \<rparr> demo_state
      = (200, \<lparr> files = files demo_state,
               trace = [AnswerCallbackQuery (js ''q7''),
                        InjectCommand (js ''make deploy'') (js ''main''),
                        SendMessage (js ''6666'')
                          (CommandSent (js ''make deploy'') (js ''main''))] \<rparr>)"
proof -
  have unauthorized: "\<not> isAuthorized demo_env (js ''666'') (js ''6666'')"
    by (simp add: isAuthorized_def demo_env_def js_def)
  have trimmed: "trim (js ''/cmdABC12345 make deploy'') \<noteq> []"
    by (simp add: trim_def char_defs)
  have msg: "handleMessage demo_env
        \<lparr> msg_chat_id = js ''6666'', msg_from_id = js ''666'',
          msg_text = Some (js ''/cmdABC12345 make deploy''), reply_to_message = None \<rparr> demo_state
      = \<lparr> files = files demo_state, trace = [SendMessage (js ''6666'') NotAuthorized] \<rparr>"
    using unauthorized trimmed
    by (simp add: handleMessage_def sendMessage_def emit_def demo_state_def)
  have data: "js ''quickcmd:ABC12345:make deploy''
      = js ''quickcmd:'' @ js ''ABC12345'' @ colon # js ''make deploy''"
    by (simp add: js_def colon_def)
  have "colon \<notin> set (js ''ABC12345'')"
    by (simp add: js_def colon_def)
  then have parts: "split (js ''quickcmd:ABC12345:make deploy'') colon
      = js ''quickcmd'' # js ''ABC12345'' # split (js ''make deploy'') colon"
    unfolding data by (rule split_quickcmd)
  have tok: "second (split (js ''quickcmd:ABC12345:make deploy'') colon) = js ''ABC12345''"
    by (simp only: parts second_def list.case)
  have command: "join (drop 2 (split (js ''quickcmd:ABC12345:make deploy'') colon)) colon
      = js ''make deploy''"
    by (simp add: parts join_split)
  have branch: "\<not> startsWith (js ''quickcmd:ABC12345:make deploy'') (js ''personal:'')"
    "\<not> startsWith (js ''quickcmd:ABC12345:make deploy'') (js ''group:'')"
    "\<not> startsWith (js ''quickcmd:ABC12345:make deploy'') (js ''copy:'')"
    "\<not> startsWith (js ''quickcmd:ABC12345:make deploy'') (js ''format:'')"
    "startsWith (js ''quickcmd:ABC12345:make deploy'') (js ''quickcmd:'')"
    unfolding data by (rule quickcmd_branch)+
  have found: "findSessionByToken demo_env
      (files (emit (AnswerCallbackQuery (js ''q7'')) demo_state)) (js ''ABC12345'')
      = Some demo_session"
    by (simp add: findSessionByToken_def readdirSync_def demo_env_def demo_state_def
        demo_session_def endsWith_def emit_def js_def)
  have cb: "handleCallbackQuery demo_env
        \<lparr> cq_id = js ''q7'', cq_chat_id = js ''6666'',
          cq_data = js ''quickcmd:ABC12345:make deploy'' \<rparr> demo_state
      = \<lparr> files = files demo_state,
          trace = [AnswerCallbackQuery (js ''q7''),
                   InjectCommand (js ''make deploy'') (js ''main''),
                   SendMessage (js ''6666'') (CommandSent (js ''make deploy'') (js ''main''))] \<rparr>"
    unfolding handleCallbackQuery_def Let_def
    apply (simp only: callback_query.simps branch if_True if_False tok command)
    apply (simp add: processCommand_def found)
    apply (simp add: demo_session_def demo_env_def demo_state_def sendMessage_def emit_def js_def
        Let_def)
    done
  from unauthorized msg cb show ?thesis
    by (simp add: handleWebhook_def)
qed

section \<open>Properties of session expiry\<close>

lemma scanSessionFiles_Some:
  assumes "scanSessionFiles dir tok names = Some s"
  shows "\<exists>file\<in>set names. map_of dir file = Some (SessionJson s) \<and> token s = tok"
  using assms
proof (induction names)
  case Nil
  then show ?case by simp
next
  case (Cons name rest)
  then show ?case
    by (auto split: if_splits option.splits file_content.splits)
qed

lemma scanSessionFiles_None:
  assumes "\<And>file s. file \<in> set names \<Longrightarrow> map_of dir file = Some (SessionJson s) \<Longrightarrow> token s \<noteq> tok"
  shows "scanSessionFiles dir tok names = None"
  using assms
proof (induction names)
  case Nil
  then show ?case by simp
next
  case (Cons name rest)
  then show ?case
    by (auto split: option.splits file_content.splits)
qed

lemma onlySessionFileD:
  assumes "onlySessionFile dir tok file"
    and "map_of dir name = Some (SessionJson s)" and "token s = tok"
  shows "name = file"
proof -
  from assms(2) have "(name, SessionJson s) \<in> set dir"
    by (rule map_of_SomeD)
  with assms(1,3) show ?thesis
    by (auto simp: onlySessionFile_def list_all_iff)
qed

lemma removeSession_absent: "\<not> existsSync (removeSession dir sessionId) (sessionFile sessionId)"
  by (simp add: removeSession_def existsSync_def unlinkSync_def AList.delete_conv')

lemma removeSession_others:
  "name \<noteq> sessionFile sessionId \<Longrightarrow> map_of (removeSession dir sessionId) name = map_of dir name"
  by (simp add: removeSession_def unlinkSync_def)

lemma removeSession_scan:
  assumes "onlySessionFile dir tok (sessionFile sessionId)"
  shows "scanSessionFiles (removeSession dir sessionId) tok
      (readdirSync (removeSession dir sessionId)) = None"
proof (rule scanSessionFiles_None)
  fix name s
  assume content: "map_of (removeSession dir sessionId) name = Some (SessionJson s)"
  have other: "name \<noteq> sessionFile sessionId"
    using content removeSession_absent [of dir sessionId]
    by (auto simp: existsSync_def)
  with content have "map_of dir name = Some (SessionJson s)"
    by (simp add: removeSession_others)
  with assms other show "token s \<noteq> tok"
    using onlySessionFileD by blast
qed

text \<open>
  C1, as the code has it. When the lookup finds a session and the current second is past
  its \<open>expiresAt\<close> (\<open>expiresAt < now\<close>), the operator gets the expired-token reply and
  nothing else is sent or injected; the file of that session identifier is removed from
  the directory; and when the persistent session manager does not know the token and no
  file holds a session with that token under another name, the next lookup of the token
  finds nothing.
\<close>

theorem processCommand_expired:
  assumes "findSessionByToken env (files st) tok = Some session"
    and "expiresAt session < dateNow env div 1000"
  shows "trace (processCommand env chat tok command st) = trace st @ [SendMessage chat TokenExpired]
    \<and> files (processCommand env chat tok command st) = removeSession (files st) (sess_id session)
    \<and> \<not> existsSync (files (processCommand env chat tok command st)) (sessionFile (sess_id session))
    \<and> (getSessionByToken env tok = None
          \<and> onlySessionFile (files st) tok (sessionFile (sess_id session))
        \<longrightarrow> findSessionByToken env (files (processCommand env chat tok command st)) tok = None)"
proof -
  let ?st' = "processCommand env chat tok command st"
  have tr: "trace ?st' = trace st @ [SendMessage chat TokenExpired]"
    and fl: "files ?st' = removeSession (files st) (sess_id session)"
    using assms by (simp_all add: processCommand_def sendMessage_def emit_def Let_def)
  have gone: "\<not> existsSync (files ?st') (sessionFile (sess_id session))"
    unfolding fl by (rule removeSession_absent)
  have "findSessionByToken env (files ?st') tok = None"
    if "getSessionByToken env tok = None"
      and "onlySessionFile (files st) tok (sessionFile (sess_id session))"
    using that by (simp add: findSessionByToken_def fl removeSession_scan)
  with tr fl gone show ?thesis
    by blast
qed

lemma demo_found:
  "findSessionByToken (demo_env \<lparr> dateNow := t \<rparr>) (files demo_state) (js ''ABC12345'')
    = Some demo_session"
  by (simp add: findSessionByToken_def readdirSync_def demo_env_def demo_state_def
      demo_session_def endsWith_def js_def)

theorem processCommand_expired_witness:
  "findSessionByToken demo_env_after_expiry (files demo_state) (js ''ABC12345'') = Some demo_session
   \<and> expiresAt demo_session < dateNow demo_env_after_expiry div 1000
   \<and> getSessionByToken demo_env_after_expiry (js ''ABC12345'') = None
   \<and> onlySessionFile (files demo_state) (js ''ABC12345'') (sessionFile (sess_id demo_session))
   \<and> trace (processCommand demo_env_after_expiry (js ''1001'') (js ''ABC12345'') (js ''ls'') demo_state)
       = [SendMessage (js ''1001'') TokenExpired]
   \<and> files (processCommand demo_env_after_expiry (js ''1001'') (js ''ABC12345'') (js ''ls'') demo_state)
       = []
   \<and> findSessionByToken demo_env_after_expiry
        (files (processCommand demo_env_after_expiry (js ''1001'') (js ''ABC12345'') (js ''ls'') demo_state))
        (js ''ABC12345'') = None"
proof -
  have found: "findSessionByToken demo_env_after_expiry (files demo_state) (js ''ABC12345'')
      = Some demo_session"
    unfolding demo_env_after_expiry_def by (rule demo_found)
  have expired: "expiresAt demo_session < dateNow demo_env_after_expiry div 1000"
    by (simp add: demo_session_def demo_env_after_expiry_def demo_env_def)
  have unknown: "getSessionByToken demo_env_after_expiry (js ''ABC12345'') = None"
    by (simp add: demo_env_after_expiry_def demo_env_def)
  have only: "onlySessionFile (files demo_state) (js ''ABC12345'')
      (sessionFile (sess_id demo_session))"
    by (simp add: onlySessionFile_def demo_state_def demo_session_def sessionFile_def js_def)
  have removed: "removeSession (files demo_state) (sess_id demo_session) = []"
    by (simp add: removeSession_def existsSync_def unlinkSync_def demo_state_def
        demo_session_def sessionFile_def js_def)
  have start: "trace demo_state = []"
    by (simp add: demo_state_def)
  from processCommand_expired [OF found expired, of "js ''1001''" "js ''ls''"]
    found expired unknown only
  show ?thesis
    by (auto simp: removed start)
qed

text \<open>
  C1 as the specification words it fails in the second \<open>now = expiresAt\<close>: the check is
  \<open>expiresAt < now\<close>, so the session is still served, the command is injected and the
  session file stays.
\<close>

theorem processCommand_at_expiry_counterexample:
  "findSessionByToken demo_env_at_expiry (files demo_state) (js ''ABC12345'') = Some demo_session
   \<and> expiresAt demo_session = dateNow demo_env_at_expiry div 1000
   \<and> processCommand demo_env_at_expiry (js ''1001'') (js ''ABC12345'') (js ''ls'') demo_state
       = \<lparr> files = files demo_state,
           trace = [InjectCommand (js ''ls'') (js ''main''),
                    SendMessage (js ''1001'') (CommandSent (js ''ls'') (js ''main''))] \<rparr>"
proof -
  have found: "findSessionByToken demo_env_at_expiry (files demo_state) (js ''ABC12345'')
      = Some demo_session"
    unfolding demo_env_at_expiry_def by (rule demo_found)
  have at: "expiresAt demo_session = dateNow demo_env_at_expiry div 1000"
    by (simp add: demo_session_def demo_env_at_expiry_def demo_env_def)
  have "processCommand demo_env_at_expiry (js ''1001'') (js ''ABC12345'') (js ''ls'') demo_state
       = \<lparr> files = files demo_state,
           trace = [InjectCommand (js ''ls'') (js ''main''),
                    SendMessage (js ''1001'') (CommandSent (js ''ls'') (js ''main''))] \<rparr>"
    by (simp add: processCommand_def found at [symmetric])
      (simp add: demo_session_def demo_env_at_expiry_def demo_env_def demo_state_def
        sendMessage_def emit_def js_def Let_def)
  with found at show ?thesis
    by blast
qed

section \<open>Properties of the outbound notification\<close>

lemma createSession_removeSession:
  "removeSession (createSession env sessionId notification tok dir) sessionId
    = AList.delete (sessionFile sessionId) dir"
  by (simp add: createSession_def writeFileSync_def removeSession_def existsSync_def
      unlinkSync_def AList.update_conv' AList.delete_update_same Let_def)

lemma delete_absent:
  assumes "\<not> existsSync dir name"
  shows "AList.delete name dir = dir"
  using assms by (simp add: existsSync_def map_of_eq_None_iff)

text \<open>
  C6. When the channel is configured and the post to the chat platform fails,
  \<open>_sendImpl\<close> returns \<open>false\<close> and the file of the session it has just created is gone
  when it returns: the directory is what it was before the call without that file name,
  and exactly what it was when no file of that name existed before.
\<close>

theorem sendImpl_failure_removes_session:
  assumes "validateConfig (ch_config env)" and "\<not> postSucceeds env"
  shows "\<exists>requestData dir'.
      sendImpl env notification dir = Inr (False, requestData, dir')
      \<and> \<not> existsSync dir' (sessionFile (uuidv4 env))
      \<and> map_of dir' = (map_of dir)(sessionFile (uuidv4 env) := None)
      \<and> (\<not> existsSync dir (sessionFile (uuidv4 env)) \<longrightarrow> dir' = dir)"
proof -
  let ?dir' = "AList.delete (sessionFile (uuidv4 env)) dir"
  have "\<exists>requestData. sendImpl env notification dir = Inr (False, requestData, ?dir')"
    using assms by (simp add: sendImpl_def Let_def createSession_removeSession)
  moreover have "\<not> existsSync ?dir' (sessionFile (uuidv4 env))"
    by (simp add: existsSync_def AList.delete_conv')
  moreover have "map_of ?dir' = (map_of dir)(sessionFile (uuidv4 env) := None)"
    by (rule AList.delete_conv')
  moreover have "?dir' = dir" if "\<not> existsSync dir (sessionFile (uuidv4 env))"
    using that by (rule delete_absent)
  ultimately show ?thesis
    by blast
qed

theorem sendImpl_failure_removes_session_witness:
  "validateConfig (ch_config demo_channel_env)
   \<and> \<not> postSucceeds demo_channel_env
   \<and> \<not> existsSync (files demo_state) (sessionFile (uuidv4 demo_channel_env))
   \<and> (\<exists>requestData. sendImpl demo_channel_env demo_notification (files demo_state)
        = Inr (False, requestData, files demo_state))"
proof -
  have configured: "validateConfig (ch_config demo_channel_env)"
    by (simp add: validateConfig_def demo_channel_env_def js_def)
  have fails: "\<not> postSucceeds demo_channel_env"
    by (simp add: demo_channel_env_def)
  have fresh: "\<not> existsSync (files demo_state) (sessionFile (uuidv4 demo_channel_env))"
    by (simp add: existsSync_def demo_state_def demo_channel_env_def sessionFile_def js_def)
  from sendImpl_failure_removes_session [OF configured fails, of demo_notification "files demo_state"]
    configured fails fresh
  show ?thesis
    by auto
qed

section \<open>Properties of the notification text and of the session stamp\<close>










lemma newSession_ttl_at_least:
  assumes "dateNow_createdAt env \<le> dateNow_expiresAt env"
  shows "the (createdAt (newSession env sessionId notification tok)) + 86400
    \<le> expiresAt (newSession env sessionId notification tok)"
proof -
  have "(dateNow_expiresAt env + 86400000) div 1000 = dateNow_expiresAt env div 1000 + 86400"
    by simp
  moreover from assms have "dateNow_createdAt env div 1000 \<le> dateNow_expiresAt env div 1000"
    by (rule zdiv_mono1) simp
  ultimately show ?thesis
    by (simp add: newSession_def)
qed

text \<open>
  C5. \<open>_createSession\<close> writes the new session to its file; with both readings of the
  clock at the same instant \<open>t\<close> the session is stamped \<open>createdAt = t div 1000\<close> and
  \<open>expiresAt = createdAt + 86400\<close>, that is 24 hours. The help message of the webhook
  handler tells the operator that tokens persist for 7 days, which is 604800 seconds.
\<close>

theorem createSession_ttl_differs_from_help:
  "map_of (createSession env sessionId notification tok dir) (sessionFile sessionId)
      = Some (SessionJson (newSession env sessionId notification tok))
   \<and> createdAt (newSession (env \<lparr> dateNow_createdAt := t, dateNow_expiresAt := t \<rparr>)
        sessionId notification tok) = Some (t div 1000)
   \<and> expiresAt (newSession (env \<lparr> dateNow_createdAt := t, dateNow_expiresAt := t \<rparr>)
        sessionId notification tok) = t div 1000 + 86400
   \<and> (\<exists>before after. helpMessage = before @ js ''Tokens persist for 7 days'' @ after)
   \<and> (7::int) * 24 * 60 * 60 \<noteq> 86400"
proof -
  have written: "map_of (createSession env sessionId notification tok dir) (sessionFile sessionId)
      = Some (SessionJson (newSession env sessionId notification tok))"
    by (simp add: createSession_def writeFileSync_def AList.update_conv' Let_def)
  have stamp: "(t + 24 * 60 * 60 * 1000) div 1000 = t div 1000 + 86400" for t :: int
    by simp
  have "helpMessage
      = ([55357, 56538] @ js '' Claude Code Remote Bot Help'' @ nl @ nl
          @ js ''Commands:'' @ nl
          @ [8226] @ js '' /start - Welcome message'' @ nl
          @ [8226] @ js '' /help - Show this help'' @ nl
          @ [8226] @ js '' /cmdTOKEN command - Send command to Claude'' @ nl @ nl
          @ js ''Example:'' @ nl
          @ js ''/cmdABC12345 analyze the performance of this function'' @ nl @ nl
          @ js ''Tips:'' @ nl
          @ [8226] @ js '' Tokens are case-insensitive'' @ nl
          @ [8226] @ js '' '')
        @ js ''Tokens persist for 7 days''
        @ (nl @ [8226] @ js '' You can also just type TOKEN command without /cmd'')"
    by (simp add: helpMessage_def js_def)
  then have advertised: "\<exists>before after. helpMessage = before @ js ''Tokens persist for 7 days'' @ after"
    by blast
  from written stamp advertised show ?thesis
    by (simp add: newSession_def)
qed

end
